theory Spec2Isabelle
  imports Main "HOL-Library.Sublist" "HOL-Library.AList"
begin

section \<open>Python strings and lists\<close>

text \<open>
  Strings are \<open>char list\<close>. Python's substring test \<open>sub in s\<close> is the contiguous
  \<^const>\<open>sublist\<close> of the library, which is executable.
\<close>

text \<open>\<open>s.split(sep)\<close> for a one-character separator: never empty, \<open>''.split(sep) = ['']\<close>.\<close>

fun py_split :: "char \<Rightarrow> string \<Rightarrow> string list" where
  "py_split sep [] = [[]]"
| "py_split sep (c # cs) =
     (if c = sep then [] # py_split sep cs
      else (case py_split sep cs of
              [] \<Rightarrow> [[c]]
            | w # ws \<Rightarrow> (c # w) # ws))"

text \<open>\<open>sep.join(xs)\<close>.\<close>

fun py_join :: "string \<Rightarrow> string list \<Rightarrow> string" where
  "py_join sep [] = []"
| "py_join sep [x] = x"
| "py_join sep (x # y # ys) = x @ sep @ py_join sep (y # ys)"

text \<open>
  \<open>s.replace(old, new)\<close>: one pass from the left over non-overlapping occurrences of
  \<open>old\<close>; the text put in place of an occurrence is not scanned again.
\<close>

function py_replace :: "string \<Rightarrow> string \<Rightarrow> string \<Rightarrow> string" where
  "py_replace old new [] = (if old = [] then new else [])"
| "py_replace old new (c # cs) =
     (if old = [] then new @ c # py_replace old new cs
      else if prefix old (c # cs)
           then new @ py_replace old new (drop (length old) (c # cs))
           else c # py_replace old new cs)"
  by pat_completeness auto
termination
  by (relation "measure (\<lambda>(old, new, s). length s)") auto

text \<open>
  \<open>repr\<close> of a string and of a list of strings, which is what an f-string pastes for a
  list. The string is put between single quotes, or between double quotes when it holds
  a single quote and no double quote; the quote in use and the backslash are escaped,
  and so are the control characters. Characters are bytes here: one above 127 is kept
  as it is.
\<close>

definition repr_quote :: "string \<Rightarrow> char" where
  "repr_quote s = (if CHR 0x27 \<in> set s \<and> CHR 0x22 \<notin> set s then CHR 0x22 else CHR 0x27)"

definition hex_digit :: "nat \<Rightarrow> char" where
  "hex_digit n = ''0123456789abcdef'' ! (n mod 16)"

definition repr_char :: "char \<Rightarrow> char \<Rightarrow> string" where
  "repr_char quote c =
     (if c = quote \<or> c = CHR 0x5C then [CHR 0x5C, c]
      else if c = CHR 0x09 then [CHR 0x5C, CHR ''t'']
      else if c = CHR 0x0A then [CHR 0x5C, CHR ''n'']
      else if c = CHR 0x0D then [CHR 0x5C, CHR ''r'']
      else if of_char c < (32 :: nat) \<or> c = CHR 0x7F
        then [CHR 0x5C, CHR ''x'', hex_digit (of_char c div 16), hex_digit (of_char c)]
      else [c])"

definition py_repr_str :: "string \<Rightarrow> string" where
  "py_repr_str s = (let q = repr_quote s in q # concat (map (repr_char q) s) @ [q])"

definition py_repr_list :: "string list \<Rightarrow> string" where
  "py_repr_list xs = ''['' @ py_join '', '' (map py_repr_str xs) @ '']''"

section \<open>Exceptions\<close>

datatype error =
    ValueError_both_modes
      \<comment> \<open>\<open>ValueError("Can not set both `dmget=True` and `mirror=True`.")\<close>\<close>
  | ValueError_path_type
      \<comment> \<open>\<open>ValueError("path must be str or list of str.")\<close>\<close>
  | ValueError_no_match
      \<comment> \<open>\<open>ValueError("No variables matching these constraints available.")\<close>\<close>
  | ValueError_ambiguous string "string list"
      \<comment> \<open>\<open>ValueError("Ambiguous request; ...")\<close>, with the variable and the candidates\<close>
  | TypeError_not_iterable
      \<comment> \<open>iterating over \<open>None\<close>\<close>
  | TypeError_multiple_values
      \<comment> \<open>a keyword argument passed twice in one call\<close>
  | IndexError
      \<comment> \<open>a list index out of range\<close>
  | UnboundLocalError
      \<comment> \<open>a local variable read before any branch assigned it\<close>
  | OSError
      \<comment> \<open>a failing file-system call\<close>

text \<open>\<open>xs[0]\<close> and \<open>xs[-2]\<close>.\<close>

definition index_first :: "'a list \<Rightarrow> error + 'a" where
  "index_first xs = (case xs of [] \<Rightarrow> Inl IndexError | x # _ \<Rightarrow> Inr x)"

definition index_second_last :: "'a list \<Rightarrow> error + 'a" where
  "index_second_last xs =
     (if length xs < 2 then Inl IndexError else Inr (xs ! (length xs - 2)))"

section \<open>Path construction\<close>

definition get_pathspp ::
  "string \<Rightarrow> string \<Rightarrow> string \<Rightarrow> string \<Rightarrow> string \<Rightarrow> string \<Rightarrow> string" where
  "get_pathspp pp ppname out local time add =
     (let filename = py_join ''.'' [ppname, time, add, ''nc''];
          path = py_join ''/'' [pp, ppname, out, local, filename]
      in py_replace ''//'' ''/'' path)"

section \<open>The catalogue: directory listings and variable names\<close>

text \<open>
  The catalogue functions only read directory listings and print. The file system is a
  snapshot: \<open>fs p\<close> is the listing of directory \<open>p\<close> in the order \<open>os.listdir\<close> gives it,
  or \<open>None\<close> where \<open>os.listdir\<close> raises. Each function returns the lines it printed
  together with its outcome.
\<close>

type_synonym filesystem = "string \<Rightarrow> string list option"

definition os_listdir :: "filesystem \<Rightarrow> string \<Rightarrow> error + string list" where
  "os_listdir fs p = (case fs p of None \<Rightarrow> Inl OSError | Some names \<Rightarrow> Inr names)"

definition get_ppnames :: "filesystem \<Rightarrow> string \<Rightarrow> error + string list" where
  "get_ppnames fs pp = os_listdir fs (pp @ ''/'')"

definition get_local :: "filesystem \<Rightarrow> string \<Rightarrow> string \<Rightarrow> string \<Rightarrow> error + string" where
  "get_local fs pp ppname out =
     (case os_listdir fs (py_join ''/'' [pp, ppname, out]) of
        Inl e \<Rightarrow> Inl e
      | Inr l1 \<Rightarrow>
          (case index_first l1 of
             Inl e \<Rightarrow> Inl e
           | Inr local1 \<Rightarrow>
               (case os_listdir fs (py_join ''/'' [pp, ppname, out, local1]) of
                  Inl e \<Rightarrow> Inl e
                | Inr l2 \<Rightarrow>
                    (case index_first l2 of
                       Inl e \<Rightarrow> Inl e
                     | Inr local2 \<Rightarrow> Inr (py_join ''/'' [local1, local2])))))"

text \<open>The \<open>for file in files\<close> loop of \<open>get_varnames\<close>, with \<open>allvars\<close> as accumulator.\<close>

fun varnames_loop :: "string list \<Rightarrow> string list \<Rightarrow> error + string list" where
  "varnames_loop [] allvars = Inr allvars"
| "varnames_loop (file # files) allvars =
     (let split = py_split CHR ''.'' file in
      if ''nc'' \<notin> set split then varnames_loop files allvars
      else (case index_second_last split of
              Inl e \<Rightarrow> Inl e
            | Inr varname \<Rightarrow>
                if varname \<notin> set allvars then varnames_loop files (allvars @ [varname])
                else varnames_loop files allvars))"

text \<open>
  The bare \<open>except\<close> catches the failing listing as well as the index error of an empty
  listing. Without a \<open>ts\<close> directory the function falls off its end and returns \<open>None\<close>.
\<close>

definition get_varnames ::
  "filesystem \<Rightarrow> string \<Rightarrow> string \<Rightarrow> bool \<Rightarrow> string list \<times> (error + string list option)" where
  "get_varnames fs pp ppname verbose =
     (let valid = (case os_listdir fs (py_join ''/'' [pp, ppname, ''ts'']) of
                     Inl e \<Rightarrow> False
                   | Inr l \<Rightarrow> (case index_first l of Inl e \<Rightarrow> False | Inr local1 \<Rightarrow> True))
      in if \<not> valid
         then (if verbose
               then [''No ts directory in '' @ ppname @ ''. Can't retrieve variables.'']
               else [],
               Inr None)
         else ([],
               case get_local fs pp ppname ''ts'' of
                 Inl e \<Rightarrow> Inl e
               | Inr local \<Rightarrow>
                   (case os_listdir fs (py_join ''/'' [pp, ppname, ''ts'', local]) of
                      Inl e \<Rightarrow> Inl e
                    | Inr files \<Rightarrow>
                        (case varnames_loop files [] of
                           Inl e \<Rightarrow> Inl e
                         | Inr allvars \<Rightarrow> Inr (Some allvars)))))"

text \<open>
  The dictionary of \<open>get_allvars\<close> is an association list in insertion order;
  \<^const>\<open>AList.update\<close> overwrites a key in place as a Python \<open>dict\<close> does.
\<close>

fun allvars_loop ::
  "filesystem \<Rightarrow> string \<Rightarrow> bool \<Rightarrow> string list \<Rightarrow> (string \<times> string list) list \<Rightarrow>
   string list \<times> (error + (string \<times> string list) list)" where
  "allvars_loop fs pp verbose [] allvars = ([], Inr allvars)"
| "allvars_loop fs pp verbose (ppname # ppnames) allvars =
     (case get_varnames fs pp ppname verbose of
        (printed, Inl e) \<Rightarrow> (printed, Inl e)
      | (printed, Inr None) \<Rightarrow>
          (case allvars_loop fs pp verbose ppnames allvars of
             (printed', r) \<Rightarrow> (printed @ printed', r))
      | (printed, Inr (Some varnames)) \<Rightarrow>
          (case allvars_loop fs pp verbose ppnames (AList.update ppname varnames allvars) of
             (printed', r) \<Rightarrow> (printed @ printed', r)))"

definition get_allvars ::
  "filesystem \<Rightarrow> string \<Rightarrow> bool \<Rightarrow> string list \<times> (error + (string \<times> string list) list)" where
  "get_allvars fs pp verbose =
     (case get_ppnames fs pp of
        Inl e \<Rightarrow> ([], Inl e)
      | Inr ppnames \<Rightarrow> allvars_loop fs pp verbose ppnames [])"

text \<open>
  The loop of \<open>find_variable\<close> over \<open>allvars.keys()\<close>; \<open>found\<close> is set exactly when a
  name is appended, so it is \<open>ppnames \<noteq> []\<close> at the end.
\<close>

fun find_loop ::
  "string \<Rightarrow> bool \<Rightarrow> (string \<times> string list) list \<Rightarrow> string list \<times> string list" where
  "find_loop variable verbose [] = ([], [])"
| "find_loop variable verbose ((ppname, varnames) # rest) =
     (case find_loop variable verbose rest of
        (printed, ppnames) \<Rightarrow>
          if variable \<in> set varnames
          then ((if verbose then [variable @ '' is in '' @ ppname] else []) @ printed,
                ppname # ppnames)
          else (printed, ppnames))"

definition find_variable ::
  "filesystem \<Rightarrow> string \<Rightarrow> string \<Rightarrow> bool \<Rightarrow> string list \<times> (error + string list option)" where
  "find_variable fs pp variable verbose =
     (case get_allvars fs pp verbose of
        (printed, Inl e) \<Rightarrow> (printed, Inl e)
      | (printed, Inr allvars) \<Rightarrow>
          (case find_loop variable verbose allvars of
             (printed', ppnames) \<Rightarrow>
               if ppnames \<noteq> [] then (printed @ printed', Inr (Some ppnames))
               else (printed @ printed' @ [''No '' @ variable @ '' in this pp.''], Inr None)))"

text \<open>An argument that is a string or a list of strings.\<close>

datatype str_or_list = Str string | StrList "string list"

fun as_list :: "str_or_list \<Rightarrow> string list" where
  "as_list (Str s) = [s]"
| "as_list (StrList xs) = xs"

text \<open>What \<open>find_unique_variable\<close> returns: one name, or a list of names.\<close>

datatype found = One string | Many "string list"

definition constraint_filter :: "string list \<Rightarrow> string list \<Rightarrow> string list \<Rightarrow> string list" where
  "constraint_filter require ignore candidates =
     filter (\<lambda>e. list_all (\<lambda>r. sublist r e) require \<and> \<not> list_ex (\<lambda>s. sublist s e) ignore)
       candidates"

definition find_unique_variable ::
  "filesystem \<Rightarrow> string \<Rightarrow> string \<Rightarrow> str_or_list \<Rightarrow> str_or_list \<Rightarrow> bool \<Rightarrow>
   string list \<times> (error + found)" where
  "find_unique_variable fs pp variable require ignore unique =
     (let ignore' = as_list ignore;
          require' = as_list require
      in case find_variable fs pp variable False of
           (printed, Inl e) \<Rightarrow> (printed, Inl e)
         | (printed, Inr None) \<Rightarrow> (printed, Inl TypeError_not_iterable)
         | (printed, Inr (Some candidates)) \<Rightarrow>
             (let local_list = constraint_filter require' ignore' candidates
              in (printed,
                  if length local_list = 1 then Inr (One (local_list ! 0))
                  else if length local_list = 0 then Inl ValueError_no_match
                  else if length local_list > 1 \<and> unique
                       then Inl (ValueError_ambiguous variable local_list)
                  else if length local_list > 1 \<and> \<not> unique then Inr (Many local_list)
                  else Inr (Many []))))"

section \<open>The outside world: commands, files and the trace of effects\<close>

text \<open>
  Everything the migration and mirroring code does to the outside is an event, appended
  to a trace in program order. \<open>Print text end\<close> is \<open>print(text, end=end)\<close>;
  \<open>Sleep ms\<close> is \<open>time.sleep\<close> with its argument in milliseconds, so
  \<open>time.sleep(1.)\<close> is \<open>Sleep 1000\<close> and \<open>time.sleep(0.5)\<close> is \<open>Sleep 500\<close>.
  The keyword arguments handed on to \<open>xarray\<close> are a list of names with their values,
  of type \<open>'k\<close>; \<open>OpenMfdataset paths kwargs\<close> is the call
  \<open>xr.open_mfdataset(paths, use_cftime=True, **kwargs)\<close>.
\<close>

datatype 'k event =
    Glob string
  | Print string string
  | System string
  | Popen string
  | Sleep nat
  | IsDir string
  | IsFile string
  | MakeDirs string
  | OpenMfdataset "string list" "(string \<times> 'k) list"

text \<open>
  What the outside answers may depend on everything that happened before (the tape
  system migrates files while the program sleeps), so each answer is a function of the
  trace so far. \<open>makedirs_ok\<close> is false where \<open>os.makedirs\<close> raises; the dataset
  opener returns a dataset of type \<open>'d\<close> or raises.
\<close>

record ('k, 'd) world =
  glob_result :: "'k event list \<Rightarrow> string \<Rightarrow> string list"
  system_status :: "'k event list \<Rightarrow> string \<Rightarrow> int"
  popen_output :: "'k event list \<Rightarrow> string \<Rightarrow> string"
  isdir_result :: "'k event list \<Rightarrow> string \<Rightarrow> bool"
  isfile_result :: "'k event list \<Rightarrow> string \<Rightarrow> bool"
  makedirs_ok :: "'k event list \<Rightarrow> string \<Rightarrow> bool"
  open_mfdataset_result ::
    "'k event list \<Rightarrow> string list \<Rightarrow> (string \<times> 'k) list \<Rightarrow> error + 'd"

text \<open>An argument that should be a string or a list of strings, and may be neither.\<close>

datatype path_arg = PathStr string | PathList "string list" | PathOther

section \<open>Tape residency and migration\<close>

definition dmget_cmd :: "string list \<Rightarrow> string" where
  "dmget_cmd paths = ''dmget '' @ py_join '' '' paths @ '' &''"

definition issue_dmget ::
  "('k, 'd) world \<Rightarrow> path_arg \<Rightarrow> 'k event list \<Rightarrow> (error + int) \<times> 'k event list" where
  "issue_dmget w path tr =
     (case path of
        PathList ps \<Rightarrow>
          (let cmd = dmget_cmd ps in (Inr (system_status w tr cmd), tr @ [System cmd]))
      | PathStr p \<Rightarrow>
          (let cmd = ''dmget '' @ p @ '' &'' in (Inr (system_status w tr cmd), tr @ [System cmd]))
      | PathOther \<Rightarrow> (Inl UnboundLocalError, tr))"

text \<open>The two status markers of \<open>dmls -l\<close> that mean the file is on disk.\<close>

definition has_ondisk_marker :: "string \<Rightarrow> bool" where
  "has_ondisk_marker output \<longleftrightarrow> sublist ''(REG)'' output \<or> sublist ''(DUL)'' output"

text \<open>\<open>output.split(' ')[-1]\<close>; the split is never empty, so \<open>[-1]\<close> is its last element.\<close>

definition last_token :: "string \<Rightarrow> string" where
  "last_token output = last (py_split CHR '' '' output)"

text \<open>
  The body of \<open>query_ondisk\<close> after the command has run: the loop over all but the last
  piece of the output split at newlines, assigning into the dictionary (an association
  list; a later line with the same key overwrites the earlier entry).
\<close>

definition ondisk_of_output :: "string \<Rightarrow> (string \<times> bool) list" where
  "ondisk_of_output text =
     fold (\<lambda>output ondisk. AList.update (last_token output) (has_ondisk_marker output) ondisk)
       (butlast (py_split (CHR 0x0A) text)) []"

text \<open>
  The argument of \<open>query_ondisk\<close> is pasted into the command by an f-string. It is a
  path (or a pattern) where \<open>open_frompp\<close> calls it, and a list of paths in the words of
  the docstring of \<open>query_all_ondisk\<close>; a string is pasted as it is, a list as its
  \<open>repr\<close>.
\<close>

fun py_str :: "str_or_list \<Rightarrow> string" where
  "py_str (Str s) = s"
| "py_str (StrList xs) = py_repr_list xs"

definition dmls_cmd :: "str_or_list \<Rightarrow> string" where
  "dmls_cmd path = ''dmls -l '' @ py_str path"

definition query_ondisk ::
  "('k, 'd) world \<Rightarrow> str_or_list \<Rightarrow> 'k event list \<Rightarrow>
   (string \<times> bool) list \<times> 'k event list" where
  "query_ondisk w path tr =
     (let cmd = dmls_cmd path
      in (ondisk_of_output (popen_output w tr cmd), tr @ [Popen cmd]))"

text \<open>
  \<open>[all(query_ondisk(path).values()) for path in paths]\<close>: a list comprehension, so every
  group is queried, in order, whatever the earlier answers were.
\<close>

fun ondisk_flags ::
  "('k, 'd) world \<Rightarrow> str_or_list list \<Rightarrow> 'k event list \<Rightarrow> bool list \<times> 'k event list" where
  "ondisk_flags w [] tr = ([], tr)"
| "ondisk_flags w (path # paths) tr =
     (case query_ondisk w path tr of
        (ondisk, tr1) \<Rightarrow>
          (case ondisk_flags w paths tr1 of
             (flags, tr2) \<Rightarrow> (list_all (\<lambda>b. b) (map snd ondisk) # flags, tr2)))"

definition query_all_ondisk ::
  "('k, 'd) world \<Rightarrow> str_or_list list \<Rightarrow> 'k event list \<Rightarrow> bool \<times> 'k event list" where
  "query_all_ondisk w paths tr =
     (case ondisk_flags w paths tr of (flags, tr') \<Rightarrow> (list_all (\<lambda>b. b) flags, tr'))"

text \<open>
  \<open>while not(query_all_ondisk(paths)): time_module.sleep(1.)\<close>. The loop has no bound;
  \<open>None\<close> is the run that never leaves it.
\<close>

partial_function (option) wait_ondisk ::
  "('k, 'd) world \<Rightarrow> str_or_list list \<Rightarrow> 'k event list \<Rightarrow> 'k event list option" where
  "wait_ondisk w paths tr =
     (case query_all_ondisk w paths tr of
        (ondisk, tr') \<Rightarrow>
          if ondisk then Some tr' else wait_ondisk w paths (tr' @ [Sleep 1000]))"

section \<open>Mirroring\<close>

text \<open>
  The comprehension that builds \<open>path_to_copy\<close>. Python's \<open>and\<close> does not evaluate its
  second operand when the first is false, so the \<open>.gcp\<close> marker is looked for only where
  the destination file is missing.
\<close>

fun path_to_copy ::
  "('k, 'd) world \<Rightarrow> string \<Rightarrow> string list \<Rightarrow> 'k event list \<Rightarrow> string list \<times> 'k event list" where
  "path_to_copy w prefix_dir [] tr = ([], tr)"
| "path_to_copy w prefix_dir (p # ps) tr =
     (let present = isfile_result w tr (prefix_dir @ p);
          tr1 = tr @ [IsFile (prefix_dir @ p)]
      in if present
         then path_to_copy w prefix_dir ps tr1
         else (let copying = isfile_result w tr1 (prefix_dir @ p @ ''.gcp'');
                   tr2 = tr1 @ [IsFile (prefix_dir @ p @ ''.gcp'')]
               in if copying then path_to_copy w prefix_dir ps tr2
                  else (case path_to_copy w prefix_dir ps tr2 of
                          (rest, tr3) \<Rightarrow> (p # rest, tr3))))"

text \<open>\<open>[not(os.path.isfile(p)) for p in path]\<close>: every path is tested, in order.\<close>

fun missing_flags ::
  "('k, 'd) world \<Rightarrow> string list \<Rightarrow> 'k event list \<Rightarrow> bool list \<times> 'k event list" where
  "missing_flags w [] tr = ([], tr)"
| "missing_flags w (p # ps) tr =
     (case missing_flags w ps (tr @ [IsFile p]) of
        (flags, tr') \<Rightarrow> ((\<not> isfile_result w tr p) # flags, tr'))"

partial_function (option) wait_mirrored ::
  "('k, 'd) world \<Rightarrow> string list \<Rightarrow> 'k event list \<Rightarrow> 'k event list option" where
  "wait_mirrored w path tr =
     (case missing_flags w path tr of
        (flags, tr') \<Rightarrow>
          if list_ex (\<lambda>b. b) flags then wait_mirrored w path (tr' @ [Sleep 1000])
          else Some tr')"

definition mirror_destination :: "string \<Rightarrow> string" where
  "mirror_destination first = py_join ''/'' (butlast (py_split CHR ''/'' first))"

definition gcp_cmd :: "string list \<Rightarrow> string \<Rightarrow> string \<Rightarrow> string" where
  "gcp_cmd path prefix_dir destination =
     ''gcp --debug '' @ py_join '' '' path @ '' '' @ prefix_dir @ destination @ ''/''"

definition mirrored_paths :: "string \<Rightarrow> string list \<Rightarrow> string list" where
  "mirrored_paths prefix_dir path = map (\<lambda>p. py_replace ''//'' ''/'' (prefix_dir @ p)) path"

definition mirror_path ::
  "('k, 'd) world \<Rightarrow> path_arg \<Rightarrow> string \<Rightarrow> 'k event list \<Rightarrow>
   ((error + string list) \<times> 'k event list) option" where
  "mirror_path w path_arg prefix_dir tr =
     (case (case path_arg of
              PathStr p \<Rightarrow> Some [p]
            | PathList ps \<Rightarrow> Some ps
            | PathOther \<Rightarrow> None) of
        None \<Rightarrow> Some (Inl ValueError_path_type, tr)
      | Some path \<Rightarrow>
          (case index_first path of
             Inl e \<Rightarrow> Some (Inl e, tr)
           | Inr first \<Rightarrow>
               (let destination = mirror_destination first;
                    isdir = isdir_result w tr (prefix_dir @ destination);
                    tr1 = tr @ [IsDir (prefix_dir @ destination)];
                    made = (isdir \<or> makedirs_ok w tr1 (prefix_dir @ destination));
                    tr2 = (if isdir then tr1 else tr1 @ [MakeDirs (prefix_dir @ destination)])
                in if \<not> made then Some (Inl OSError, tr2)
                   else (case path_to_copy w prefix_dir path tr2 of
                           (to_copy, tr3) \<Rightarrow>
                             (let cmd = gcp_cmd path prefix_dir destination;
                                  tr4 = tr3 @ [Sleep 500,
                                               Print (''Trying command: '' @ cmd) [CHR 0x0A],
                                               System cmd];
                                  path' = mirrored_paths prefix_dir path
                              in (case wait_mirrored w path' tr4 of
                                    None \<Rightarrow> None
                                  | Some tr5 \<Rightarrow> Some (Inr path', tr5 @ [Sleep 500])))))))"

section \<open>Opening a dataset\<close>

text \<open>
  The expansion of \<open>add\<close> into paths. With an \<open>add\<close> that is neither a string nor a
  list no branch assigns \<open>paths\<close>, and reading it raises.
\<close>

fun glob_each ::
  "('k, 'd) world \<Rightarrow> string list \<Rightarrow> 'k event list \<Rightarrow> string list \<times> 'k event list" where
  "glob_each w [] tr = ([], tr)"
| "glob_each w (pattern # patterns) tr =
     (case glob_each w patterns (tr @ [Glob pattern]) of
        (paths, tr') \<Rightarrow> (glob_result w tr pattern @ paths, tr'))"

definition expand_paths ::
  "('k, 'd) world \<Rightarrow> string \<Rightarrow> string \<Rightarrow> string \<Rightarrow> string \<Rightarrow> string \<Rightarrow> path_arg \<Rightarrow>
   'k event list \<Rightarrow> (error + string list) \<times> 'k event list" where
  "expand_paths w pp ppname out local time add tr =
     (case add of
        PathStr a \<Rightarrow>
          (let path = get_pathspp pp ppname out local time a
           in (Inr (glob_result w tr path), tr @ [Glob path]))
      | PathList vs \<Rightarrow>
          (case glob_each w (map (\<lambda>v. get_pathspp pp ppname out local time v) vs) tr of
             (paths, tr') \<Rightarrow> (Inr paths, tr'))
      | PathOther \<Rightarrow> (Inl UnboundLocalError, tr))"

text \<open>
  \<open>xr.open_mfdataset(paths, use_cftime=True, **kwargs)\<close>. When \<open>kwargs\<close> itself holds
  \<open>use_cftime\<close> the call has that keyword twice, and Python raises before the opener
  runs.
\<close>

definition open_mfdataset ::
  "('k, 'd) world \<Rightarrow> string list \<Rightarrow> (string \<times> 'k) list \<Rightarrow> 'k event list \<Rightarrow>
   (error + 'd) \<times> 'k event list" where
  "open_mfdataset w paths kwargs tr =
     (if ''use_cftime'' \<in> set (map fst kwargs) then (Inl TypeError_multiple_values, tr)
      else (open_mfdataset_result w tr paths kwargs, tr @ [OpenMfdataset paths kwargs]))"

definition open_frompp ::
  "('k, 'd) world \<Rightarrow> string \<Rightarrow> string \<Rightarrow> string \<Rightarrow> string \<Rightarrow> string \<Rightarrow> path_arg \<Rightarrow>
   bool \<Rightarrow> bool \<Rightarrow> string \<Rightarrow> (string \<times> 'k) list \<Rightarrow> 'k event list \<Rightarrow>
   ((error + 'd) \<times> 'k event list) option" where
  "open_frompp w pp ppname out local time add dmget mirror prefix_dir kwargs tr =
     (if dmget \<and> mirror then Some (Inl ValueError_both_modes, tr)
      else
        (case expand_paths w pp ppname out local time add tr of
           (Inl e, tr1) \<Rightarrow> Some (Inl e, tr1)
         | (Inr paths, tr1) \<Rightarrow>
             if length paths > 0 then
               (if dmget then
                  (let tr2 = tr1 @ [Print ''Issuing dmget command to migrate data to disk.'' '' ''] in
                   case issue_dmget w (PathList paths) tr2 of
                     (r, tr3) \<Rightarrow>
                       (case wait_ondisk w (map Str paths) tr3 of
                          None \<Rightarrow> None
                        | Some tr4 \<Rightarrow>
                            Some (open_mfdataset w paths kwargs
                                    (tr4 @ [Print ''Migration complete.'' [CHR 0x0A]]))))
                else if mirror then
                  (let tr2 = tr1 @ [Print (''Mirroring paths at '' @ [CHR 0x27] @ prefix_dir @ [CHR 0x27] @ ''.'') '' ''] in
                   case mirror_path w (PathList paths) prefix_dir tr2 of
                     None \<Rightarrow> None
                   | Some (Inl e, tr3) \<Rightarrow> Some (Inl e, tr3)
                   | Some (Inr mirrored, tr3) \<Rightarrow>
                       Some (open_mfdataset w (map (\<lambda>p. prefix_dir @ p) paths) kwargs
                               (tr3 @ [Print ''Mirroring complete.'' [CHR 0x0A]])))
                else Some (open_mfdataset w paths kwargs tr1))
             else Some (open_mfdataset w paths kwargs tr1)))"

section \<open>Notions used to state the properties\<close>

text \<open>
  The test \<open>'nc' not in split\<close> of \<open>get_varnames\<close>, read as a property of the file name:
  some dot-delimited segment of the name is \<open>nc\<close>.
\<close>

definition has_nc_segment :: "string \<Rightarrow> bool" where
  "has_nc_segment file \<longleftrightarrow> ''nc'' \<in> set (py_split CHR ''.'' file)"

text \<open>The second-to-last dot-delimited segment of a name that has at least two.\<close>

definition second_last_segment :: "string \<Rightarrow> string" where
  "second_last_segment file =
     (let split = py_split CHR ''.'' file in split ! (length split - 2))"

text \<open>
  A list without its repetitions, in the order of first occurrence. The library's
  \<^const>\<open>remdups\<close> keeps the last occurrence of each element, hence the reversals.
\<close>

definition first_seen :: "'a list \<Rightarrow> 'a list" where
  "first_seen xs = rev (remdups (rev xs))"

section \<open>Example inputs\<close>

text \<open>
  A postprocess directory \<open>pp\<close> with two components that have time series and a third
  entry that has none.
\<close>

definition fs_catalogue :: filesystem where
  "fs_catalogue p =
     (if p = ''pp/'' then Some [''atmos_month'', ''atmos_daily'', ''history'']
      else if p = ''pp/atmos_month/ts'' then Some [''monthly'']
      else if p = ''pp/atmos_month/ts/monthly'' then Some [''5yr'']
      else if p = ''pp/atmos_month/ts/monthly/5yr''
        then Some [''atmos_month.200001-200412.tas.nc'', ''atmos_month.200001-200412.pr.nc'']
      else if p = ''pp/atmos_daily/ts'' then Some [''daily'']
      else if p = ''pp/atmos_daily/ts/daily'' then Some [''1yr'']
      else if p = ''pp/atmos_daily/ts/daily/1yr''
        then Some [''atmos_daily.20000101-20001231.tas.nc'']
      else None)"

text \<open>A component \<open>atmos\<close> whose time-series directory \<open>annual/5yr\<close> lists \<open>files\<close>.\<close>

definition fs_listing :: "string list \<Rightarrow> filesystem" where
  "fs_listing files p =
     (if p = ''pp/atmos/ts'' then Some [''annual'']
      else if p = ''pp/atmos/ts/annual'' then Some [''5yr'']
      else if p = ''pp/atmos/ts/annual/5yr'' then Some files
      else None)"

text \<open>The output of a command as a sequence of lines, each ended by a newline.\<close>

definition dmls_text :: "string list \<Rightarrow> string" where
  "dmls_text lines = concat (map (\<lambda>l. l @ [CHR 0x0A]) lines)"

text \<open>
  A world in which nothing matches, commands print nothing and every file is there. The
  dataset that the opener returns stands for the list of paths it was given.
\<close>

definition silent_world :: "(unit, string list) world" where
  "silent_world =
     \<lparr> glob_result = (\<lambda>tr pattern. []),
       system_status = (\<lambda>tr cmd. 0),
       popen_output = (\<lambda>tr cmd. []),
       isdir_result = (\<lambda>tr p. True),
       isfile_result = (\<lambda>tr p. True),
       makedirs_ok = (\<lambda>tr p. True),
       open_mfdataset_result = (\<lambda>tr paths kwargs. Inr paths) \<rparr>"

text \<open>Two groups of archived files: all of \<open>/a\<close> is on disk, one file of \<open>/b\<close> is not.\<close>

definition dmls_world :: "(unit, string list) world" where
  "dmls_world =
     silent_world \<lparr> popen_output := (\<lambda>tr cmd.
        if cmd = ''dmls -l /a/*.nc''
        then dmls_text [''-rw-r--r-- 1 u g 10 (REG) /a/x.nc'',
                        ''-rw-r--r-- 1 u g 10 (DUL) /a/y.nc'']
        else if cmd = ''dmls -l /b/*.nc''
        then dmls_text [''-rw-r--r-- 1 u g 10 (REG) /b/x.nc'',
                        ''-rw-r--r-- 1 u g 10 (OFL) /b/y.nc'']
        else []) \<rparr>"

text \<open>
  The trace of \<open>n\<close> unsuccessful polling rounds: each round's events, then the
  one-second sleep. One round of the residency poll is one listing command per path.
\<close>

definition poll_rounds :: "'k event list \<Rightarrow> nat \<Rightarrow> 'k event list" where
  "poll_rounds round n = concat (replicate n (round @ [Sleep 1000]))"

definition dmls_round :: "string list \<Rightarrow> 'k event list" where
  "dmls_round paths = map (\<lambda>p. Popen (''dmls -l '' @ p)) paths"

text \<open>
  A tape system that needs \<open>n\<close> seconds: every pattern matches itself, and a listed file
  is reported on disk once the program has slept \<open>n\<close> times.
\<close>

definition tape_world :: "nat \<Rightarrow> (unit, string list) world" where
  "tape_world n =
     silent_world \<lparr>
       glob_result := (\<lambda>tr pattern. [pattern]),
       popen_output := (\<lambda>tr cmd.
         ''-rw-r--r-- 1 u g 10 ''
         @ (if n \<le> length (filter (\<lambda>e. e = Sleep 1000) tr) then ''(REG)'' else ''(OFL)'')
         @ '' '' @ drop 8 cmd @ [CHR 0x0A]) \<rparr>"

text \<open>
  The last whitespace-delimited token of a line: its last maximal run of characters
  that are not whitespace (space, tab, newline, carriage return, vertical tab, form
  feed), as \<open>line.split()[-1]\<close> gives it.
\<close>

definition is_whitespace :: "char \<Rightarrow> bool" where
  "is_whitespace c \<longleftrightarrow> c \<in> set [CHR '' '', CHR 0x09, CHR 0x0A, CHR 0x0B, CHR 0x0C, CHR 0x0D]"

definition last_whitespace_token :: "string \<Rightarrow> string" where
  "last_whitespace_token line =
     rev (takeWhile (\<lambda>c. \<not> is_whitespace c) (dropWhile is_whitespace (rev line)))"

text \<open>A world in which every command prints \<open>text\<close>.\<close>

definition listing_world :: "string \<Rightarrow> (unit, string list) world" where
  "listing_world text = silent_world \<lparr> popen_output := (\<lambda>tr cmd. text) \<rparr>"

text \<open>The events that run a shell command with \<open>os.system\<close>.\<close>

fun is_system :: "'k event \<Rightarrow> bool" where
  "is_system (System cmd) = True"
| "is_system e = False"

text \<open>
  A scratch area that already holds the copy of \<open>/archive/a.nc\<close> under \<open>/vftmp/u\<close> and in
  which every other file is there as soon as a copy command has run. The scratch
  directories do not exist yet, and two archive files match every pattern.
\<close>

definition mirror_world :: "(unit, string list) world" where
  "mirror_world =
     silent_world \<lparr>
       glob_result := (\<lambda>tr pattern. [''/archive/a.nc'', ''/archive/b.nc'']),
       isdir_result := (\<lambda>tr p. False),
       isfile_result := (\<lambda>tr p.
         py_replace ''//'' ''/'' p = ''/vftmp/u/archive/a.nc'' \<or> list_ex is_system tr) \<rparr>"

section \<open>Splitting and first-seen order\<close>

lemma py_split_nonempty: "py_split sep s \<noteq> []"
  by (induction s) (auto split: list.splits)

lemma py_split_single: "py_split sep s = [x] \<Longrightarrow> x = s"
proof (induction s arbitrary: x)
  case Nil
  then show ?case by simp
next
  case (Cons a s)
  then show ?case
    by (auto split: if_splits list.splits simp: py_split_nonempty)
qed

lemma py_split_append_sep:
  "py_split sep (xs @ sep # ys) = py_split sep xs @ py_split sep ys"
  by (induction xs) (auto split: list.splits simp: py_split_nonempty)

lemma has_nc_two_segments:
  assumes "has_nc_segment f" "f \<noteq> ''nc''"
  shows "2 \<le> length (py_split CHR ''.'' f)"
proof (rule ccontr)
  assume "\<not> 2 \<le> length (py_split CHR ''.'' f)"
  moreover have "length (py_split CHR ''.'' f) \<noteq> 0"
    by (simp add: py_split_nonempty)
  ultimately have "length (py_split CHR ''.'' f) = 1"
    by linarith
  then obtain x where x: "py_split CHR ''.'' f = [x]"
    by (cases "py_split CHR ''.'' f") auto
  then have "x = f" by (rule py_split_single)
  with x assms show False by (simp add: has_nc_segment_def)
qed

lemma nc_suffix_has_nc_segment: "has_nc_segment (stem @ ''.nc'')"
  by (simp add: has_nc_segment_def py_split_append_sep)

lemma first_seen_distinct: "distinct xs \<Longrightarrow> first_seen xs = xs"
  by (simp add: first_seen_def distinct_remdups_id)

lemma remdups_drop_repeated:
  "x \<in> set bs \<Longrightarrow> remdups (as @ x # bs) = remdups (as @ bs)"
  by (induction as) auto

lemma first_seen_seen:
  "x \<in> set acc \<Longrightarrow> first_seen (acc @ x # ys) = first_seen (acc @ ys)"
  by (simp add: first_seen_def remdups_drop_repeated)

section \<open>The variable names of a time-series directory\<close>

text \<open>
  The loop of \<open>get_varnames\<close>, started with distinct names in \<open>allvars\<close>, on a listing in
  which no kept name is the bare \<open>nc\<close> (whose split has no second-to-last segment).
\<close>

lemma varnames_loop_first_seen:
  assumes "list_all (\<lambda>f. has_nc_segment f \<longrightarrow> f \<noteq> ''nc'') files" "distinct acc"
  shows "varnames_loop files acc =
           Inr (first_seen (acc @ map second_last_segment (filter has_nc_segment files)))"
  using assms
proof (induction files arbitrary: acc)
  case Nil
  then show ?case by (simp add: first_seen_distinct)
next
  case (Cons f files)
  show ?case
  proof (cases "has_nc_segment f")
    case False
    with Cons show ?thesis by (simp add: has_nc_segment_def)
  next
    case True
    with Cons.prems have "2 \<le> length (py_split CHR ''.'' f)"
      by (simp add: has_nc_two_segments)
    then have idx: "index_second_last (py_split CHR ''.'' f) = Inr (second_last_segment f)"
      by (simp add: index_second_last_def second_last_segment_def Let_def)
    show ?thesis
    proof (cases "second_last_segment f \<in> set acc")
      case seen: True
      with True idx Cons show ?thesis
        by (simp add: has_nc_segment_def [symmetric] first_seen_seen)
    next
      case new: False
      with Cons.prems have "distinct (acc @ [second_last_segment f])" by simp
      with True idx new Cons show ?thesis
        by (simp add: has_nc_segment_def [symmetric])
    qed
  qed
qed

lemma get_varnames_listing:
  assumes "fs (py_join ''/'' [pp, ppname, ''ts'']) = Some (local1 # rest1)"
    and "fs (py_join ''/'' [pp, ppname, ''ts'', local1]) = Some (local2 # rest2)"
    and "fs (py_join ''/'' [pp, ppname, ''ts'', py_join ''/'' [local1, local2]]) = Some files"
    and "list_all (\<lambda>f. has_nc_segment f \<longrightarrow> f \<noteq> ''nc'') files"
  shows "get_varnames fs pp ppname verbose
           = ([], Inr (Some (first_seen (map second_last_segment (filter has_nc_segment files)))))"
proof -
  have "varnames_loop files [] =
          Inr (first_seen ([] @ map second_last_segment (filter has_nc_segment files)))"
    using assms(4) by (intro varnames_loop_first_seen) simp_all
  with assms(1-3) show ?thesis
    by (simp add: get_varnames_def get_local_def os_listdir_def index_first_def)
qed

text \<open>
  Claim C9, as amended. Where a component has a time-series directory whose first entry
  \<open>local1\<close> has a first entry \<open>local2\<close>, and \<open>files\<close> is the listing of
  \<open>ts/local1/local2\<close>, \<open>get_varnames\<close> keeps the names that have some dot-delimited
  segment equal to \<open>nc\<close> (not only those that end in \<open>.nc\<close>, though every name ending in
  \<open>.nc\<close> is kept), takes the second-to-last dot-delimited segment of each kept name, and
  returns these without repetitions in first-seen order. The listing must not hold a file
  named just \<open>nc\<close>. On the listing of the claim the result is \<open>tas, pr\<close>.
\<close>

theorem get_varnames_nc_segment_first_seen:
  assumes "fs (py_join ''/'' [pp, ppname, ''ts'']) = Some (local1 # rest1)"
    and "fs (py_join ''/'' [pp, ppname, ''ts'', local1]) = Some (local2 # rest2)"
    and "fs (py_join ''/'' [pp, ppname, ''ts'', py_join ''/'' [local1, local2]]) = Some files"
    and "list_all (\<lambda>f. has_nc_segment f \<longrightarrow> f \<noteq> ''nc'') files"
  shows "get_varnames fs pp ppname verbose
           = ([], Inr (Some (first_seen (map second_last_segment
                                           (filter has_nc_segment files)))))
         \<and> (\<forall>stem. has_nc_segment (stem @ ''.nc''))
         \<and> get_varnames
              (fs_listing [''atmos.20000101.tas.nc'', ''atmos.20000101.tas.nc'',
                           ''atmos.20000101.pr.nc''])
              ''pp'' ''atmos'' False
             = ([], Inr (Some [''tas'', ''pr'']))"
proof (intro conjI allI)
  show "get_varnames fs pp ppname verbose
          = ([], Inr (Some (first_seen (map second_last_segment
                                          (filter has_nc_segment files)))))"
    using assms by (rule get_varnames_listing)
  show "has_nc_segment (stem @ ''.nc'')" for stem
    by (rule nc_suffix_has_nc_segment)
  show "get_varnames
          (fs_listing [''atmos.20000101.tas.nc'', ''atmos.20000101.tas.nc'',
                       ''atmos.20000101.pr.nc''])
          ''pp'' ''atmos'' False
         = ([], Inr (Some [''tas'', ''pr'']))"
    by (simp add: get_varnames_def get_local_def os_listdir_def fs_listing_def
        index_first_def index_second_last_def)
qed

theorem get_varnames_nc_segment_first_seen_witness:
  "fs_listing [''atmos.2000.tas.nc'', ''README'', ''atmos.2000.pr.nc'', ''atmos.2001.tas.nc'',
               ''old.nc.tas.bak'']
     (py_join ''/'' [''pp'', ''atmos'', ''ts'']) = Some [''annual'']
   \<and> list_all (\<lambda>f. has_nc_segment f \<longrightarrow> f \<noteq> ''nc'')
        [''atmos.2000.tas.nc'', ''README'', ''atmos.2000.pr.nc'', ''atmos.2001.tas.nc'',
         ''old.nc.tas.bak'']
   \<and> get_varnames
        (fs_listing [''atmos.2000.tas.nc'', ''README'', ''atmos.2000.pr.nc'',
                     ''atmos.2001.tas.nc'', ''old.nc.tas.bak''])
        ''pp'' ''atmos'' False
       = ([], Inr (Some [''tas'', ''pr'']))"
  using get_varnames_nc_segment_first_seen
    [of "fs_listing [''atmos.2000.tas.nc'', ''README'', ''atmos.2000.pr.nc'',
                     ''atmos.2001.tas.nc'', ''old.nc.tas.bak'']"
        "''pp''" "''atmos''" "''annual''" "[]" "''5yr''" "[]"
        "[''atmos.2000.tas.nc'', ''README'', ''atmos.2000.pr.nc'', ''atmos.2001.tas.nc'',
          ''old.nc.tas.bak'']" False]
  by (simp add: fs_listing_def has_nc_segment_def second_last_segment_def first_seen_def)

text \<open>
  Claim C9 as stated fails: a name that does not end in \<open>.nc\<close> is kept when one of its
  inner segments is \<open>nc\<close>, and contributes a variable name.
\<close>

theorem get_varnames_keeps_non_nc_extension:
  "fs_listing [''atmos.nc.tas.txt''] ''pp/atmos/ts/annual/5yr'' = Some [''atmos.nc.tas.txt'']
   \<and> \<not> suffix ''.nc'' ''atmos.nc.tas.txt''
   \<and> get_varnames (fs_listing [''atmos.nc.tas.txt'']) ''pp'' ''atmos'' False
       = ([], Inr (Some [''tas'']))"
  by (simp add: get_varnames_def get_local_def os_listdir_def fs_listing_def
      index_first_def index_second_last_def suffix_to_prefix)

section \<open>Looking a variable up\<close>

lemma find_loop_names:
  "snd (find_loop variable verbose allvars)
     = map fst (filter (\<lambda>(ppname, varnames). variable \<in> set varnames) allvars)"
proof (induction allvars)
  case Nil
  show ?case by simp
next
  case (Cons a allvars)
  then show ?case
    by (cases a; cases "find_loop variable verbose allvars") simp
qed

lemma find_loop_quiet: "fst (find_loop variable False allvars) = []"
proof (induction allvars)
  case Nil
  show ?case by simp
next
  case (Cons a allvars)
  then show ?case
    by (cases a; cases "find_loop variable False allvars") simp
qed

lemma find_variable_absent:
  assumes "get_allvars fs pp False = (printed, Inr allvars)"
    and "list_all (\<lambda>(ppname, varnames). variable \<notin> set varnames) allvars"
  shows "find_variable fs pp variable False
           = (printed @ [''No '' @ variable @ '' in this pp.''], Inr None)"
proof -
  from assms(2) have "filter (\<lambda>(ppname, varnames). variable \<in> set varnames) allvars = []"
    by (induction allvars) auto
  then have "snd (find_loop variable False allvars) = []"
    by (simp add: find_loop_names)
  moreover have "fst (find_loop variable False allvars) = []"
    by (rule find_loop_quiet)
  ultimately have "find_loop variable False allvars = ([], [])"
    by (simp add: prod_eq_iff)
  with assms(1) show ?thesis
    by (simp add: find_variable_def)
qed

lemma get_allvars_catalogue:
  "get_allvars fs_catalogue ''pp'' False
     = ([], Inr [(''atmos_month'', [''tas'', ''pr'']), (''atmos_daily'', [''tas''])])"
  by (simp add: get_allvars_def get_ppnames_def os_listdir_def fs_catalogue_def
      get_varnames_def get_local_def index_first_def index_second_last_def)

lemma find_variable_catalogue_tas:
  "find_variable fs_catalogue ''pp'' ''tas'' False
     = ([], Inr (Some [''atmos_month'', ''atmos_daily'']))"
  by (simp add: find_variable_def get_allvars_catalogue)

lemma find_variable_catalogue_pr:
  "find_variable fs_catalogue ''pp'' ''pr'' False = ([], Inr (Some [''atmos_month'']))"
  by (simp add: find_variable_def get_allvars_catalogue)

text \<open>
  Claim C4, as amended. Let \<open>filtered\<close> be the candidates of \<open>find_variable\<close> that pass
  the require/ignore filter. \<open>find_unique_variable\<close> returns the one element itself when
  \<open>filtered\<close> has exactly one, whether or not uniqueness was asked for; it fails with the
  no-match error when \<open>filtered\<close> is empty; and when \<open>filtered\<close> has more than one element
  it fails with the ambiguity error if \<open>unique\<close> is true and returns the whole list if
  \<open>unique\<close> is false.
\<close>

theorem find_unique_variable_by_size:
  assumes "find_variable fs pp variable False = (printed, Inr (Some candidates))"
    and "filtered = constraint_filter (as_list require) (as_list ignore) candidates"
    and "r = snd (find_unique_variable fs pp variable require ignore unique)"
  shows "(length filtered = 1 \<longrightarrow> r = Inr (One (hd filtered)))
       \<and> (filtered = [] \<longrightarrow> r = Inl ValueError_no_match)
       \<and> (length filtered > 1 \<and> unique \<longrightarrow> r = Inl (ValueError_ambiguous variable filtered))
       \<and> (length filtered > 1 \<and> \<not> unique \<longrightarrow> r = Inr (Many filtered))"
  using assms
  by (cases filtered) (auto simp: find_unique_variable_def Let_def hd_conv_nth)

theorem find_unique_variable_by_size_witness:
  "find_variable fs_catalogue ''pp'' ''tas'' False
     = ([], Inr (Some [''atmos_month'', ''atmos_daily'']))
   \<and> constraint_filter [''atmos''] [] [''atmos_month'', ''atmos_daily'']
       = [''atmos_month'', ''atmos_daily'']
   \<and> snd (find_unique_variable fs_catalogue ''pp'' ''tas'' (Str ''atmos'') (StrList []) False)
       = Inr (Many [''atmos_month'', ''atmos_daily''])
   \<and> snd (find_unique_variable fs_catalogue ''pp'' ''tas'' (Str ''atmos'') (StrList []) True)
       = Inl (ValueError_ambiguous ''tas'' [''atmos_month'', ''atmos_daily''])
   \<and> constraint_filter [''atmos''] [''daily''] [''atmos_month'', ''atmos_daily'']
       = [''atmos_month'']
   \<and> snd (find_unique_variable fs_catalogue ''pp'' ''tas'' (Str ''atmos'') (Str ''daily'') True)
       = Inr (One ''atmos_month'')
   \<and> constraint_filter [''ocean''] [] [''atmos_month'', ''atmos_daily''] = []
   \<and> snd (find_unique_variable fs_catalogue ''pp'' ''tas'' (Str ''ocean'') (StrList []) False)
       = Inl ValueError_no_match"
proof -
  have f2: "constraint_filter [''atmos''] [] [''atmos_month'', ''atmos_daily'']
              = [''atmos_month'', ''atmos_daily'']"
    by (simp add: constraint_filter_def sublist_Cons_right)
  have f1: "constraint_filter [''atmos''] [''daily''] [''atmos_month'', ''atmos_daily'']
              = [''atmos_month'']"
    by (simp add: constraint_filter_def sublist_Cons_right)
  have f0: "constraint_filter [''ocean''] [] [''atmos_month'', ''atmos_daily''] = []"
    by (simp add: constraint_filter_def sublist_Cons_right)
  note rule = find_unique_variable_by_size [OF find_variable_catalogue_tas _ refl]
  show ?thesis
    using rule [of "[''atmos_month'', ''atmos_daily'']" "Str ''atmos''" "StrList []" False]
      rule [of "[''atmos_month'', ''atmos_daily'']" "Str ''atmos''" "StrList []" True]
      rule [of "[''atmos_month'']" "Str ''atmos''" "Str ''daily''" True]
      rule [of "[]" "Str ''ocean''" "StrList []" False]
    by (simp add: f0 f1 f2 find_variable_catalogue_tas)
qed

text \<open>
  Claim C4 as stated fails with \<open>unique=False\<close> and exactly one match: the result is
  the name itself, not the one-element list of the matches.
\<close>

theorem find_unique_variable_single_not_list:
  "find_variable fs_catalogue ''pp'' ''pr'' False = ([], Inr (Some [''atmos_month'']))
   \<and> constraint_filter (as_list (StrList [])) (as_list (StrList [])) [''atmos_month'']
       = [''atmos_month'']
   \<and> snd (find_unique_variable fs_catalogue ''pp'' ''pr'' (StrList []) (StrList []) False)
       = Inr (One ''atmos_month'')
   \<and> snd (find_unique_variable fs_catalogue ''pp'' ''pr'' (StrList []) (StrList []) False)
       \<noteq> Inr (Many [''atmos_month''])"
  by (simp add: find_unique_variable_def find_variable_catalogue_pr constraint_filter_def)

text \<open>
  Claim C5 fails on the code. When the variable is in no component, \<open>find_variable\<close>
  prints its message and returns \<open>None\<close>; the comprehension of \<open>find_unique_variable\<close>
  then iterates over \<open>None\<close>, which raises a type error before the branch that raises
  the no-match error is reached.
\<close>

theorem find_unique_variable_absent_type_error:
  assumes "get_allvars fs pp False = (printed, Inr allvars)"
    and "list_all (\<lambda>(ppname, varnames). variable \<notin> set varnames) allvars"
  shows "find_unique_variable fs pp variable require ignore unique
           = (printed @ [''No '' @ variable @ '' in this pp.''], Inl TypeError_not_iterable)
         \<and> snd (find_unique_variable fs pp variable require ignore unique)
             \<noteq> Inl ValueError_no_match"
  using find_variable_absent [OF assms]
  by (simp add: find_unique_variable_def)

theorem find_unique_variable_absent_type_error_witness:
  "get_allvars fs_catalogue ''pp'' False
     = ([], Inr [(''atmos_month'', [''tas'', ''pr'']), (''atmos_daily'', [''tas''])])
   \<and> list_all (\<lambda>(ppname, varnames). ''salt'' \<notin> set varnames)
        [(''atmos_month'', [''tas'', ''pr'']), (''atmos_daily'', [''tas''])]
   \<and> find_unique_variable fs_catalogue ''pp'' ''salt'' (StrList []) (StrList []) True
       = ([''No salt in this pp.''], Inl TypeError_not_iterable)"
  using find_unique_variable_absent_type_error
    [of fs_catalogue "''pp''" "[]"
        "[(''atmos_month'', [''tas'', ''pr'']), (''atmos_daily'', [''tas''])]"
        "''salt''" "StrList []" "StrList []" True]
  by (simp add: get_allvars_catalogue)

section \<open>Doubled separators in a built path\<close>











section \<open>Residency of archived files\<close>

lemma py_split_no_sep: "sep \<notin> set s \<Longrightarrow> py_split sep s = [s]"
  by (induction s) auto

lemma py_split_dmls_text:
  assumes "list_all (\<lambda>l. CHR 0x0A \<notin> set l) lines" and "CHR 0x0A \<notin> set rest"
  shows "py_split (CHR 0x0A) (dmls_text lines @ rest) = lines @ [rest]"
  using assms
  by (induction lines) (simp_all add: dmls_text_def py_split_append_sep py_split_no_sep)

lemma last_token_after_space:
  "CHR '' '' \<notin> set tok \<Longrightarrow> last_token (pre @ CHR '' '' # tok) = tok"
  by (simp add: last_token_def py_split_append_sep py_split_no_sep)

lemma fold_update_other:
  "x \<notin> k ` set ls \<Longrightarrow> map_of (fold (\<lambda>l. AList.update (k l) (v l)) ls al) x = map_of al x"
  by (induction ls arbitrary: al) (simp_all add: update_conv')

lemma fold_update_lookup:
  assumes "k l \<notin> k ` set after"
  shows "map_of (fold (\<lambda>l. AList.update (k l) (v l)) (before @ l # after) al) (k l) = Some (v l)"
  using assms by (simp add: fold_update_other update_conv')

lemma fold_update_keys:
  "fst ` set (fold (\<lambda>l. AList.update (k l) (v l)) ls al) = fst ` set al \<union> k ` set ls"
proof (induction ls rule: rev_induct)
  case Nil
  show ?case by simp
next
  case (snoc x xs)
  have "fst ` set (fold (\<lambda>l. AList.update (k l) (v l)) (xs @ [x]) al)
          = {k x} \<union> fst ` set (fold (\<lambda>l. AList.update (k l) (v l)) xs al)"
    by (simp add: AList.dom_update)
  also have "\<dots> = fst ` set al \<union> k ` set (xs @ [x])"
    unfolding snoc.IH by auto
  finally show ?case .
qed

lemma ondisk_of_dmls_text:
  assumes "list_all (\<lambda>l. CHR 0x0A \<notin> set l) lines" and "CHR 0x0A \<notin> set rest"
  shows "ondisk_of_output (dmls_text lines @ rest)
           = fold (\<lambda>l. AList.update (last_token l) (has_ondisk_marker l)) lines []"
  using py_split_dmls_text [OF assms] by (simp add: ondisk_of_output_def)

text \<open>
  Claim C7, as amended. Every output of the listing command is a sequence \<open>lines\<close> of
  lines, each ended by a newline, followed by a piece \<open>rest\<close> that no newline ends; the
  code drops \<open>rest\<close>. For every line, the key is the last piece of the line split at
  single spaces (what follows the last space), and the map returned by \<open>query_ondisk\<close>
  holds for that key whether the line contains \<open>(REG)\<close> or \<open>(DUL)\<close>; where two lines have
  the same key the later line decides, as the assignment into the dictionary does. The
  keys of the map are exactly the keys of the lines, output without a complete line
  (empty output above all) gives the empty map, and the command is run once.
\<close>

theorem query_ondisk_classifies_lines:
  assumes "popen_output w tr (''dmls -l '' @ py_str path) = dmls_text lines @ rest"
    and "list_all (\<lambda>l. CHR 0x0A \<notin> set l) lines"
    and "CHR 0x0A \<notin> set rest"
  shows "(\<forall>before l after.
            lines = before @ l # after \<and> last_token l \<notin> last_token ` set after
            \<longrightarrow> map_of (fst (query_ondisk w path tr)) (last_token l)
                  = Some (sublist ''(REG)'' l \<or> sublist ''(DUL)'' l))
       \<and> fst ` set (fst (query_ondisk w path tr)) = last_token ` set lines
       \<and> (\<forall>pre tok. CHR '' '' \<notin> set tok \<longrightarrow> last_token (pre @ CHR '' '' # tok) = tok)
       \<and> (lines = [] \<longrightarrow> fst (query_ondisk w path tr) = [])
       \<and> snd (query_ondisk w path tr) = tr @ [Popen (''dmls -l '' @ py_str path)]"
proof -
  have q: "fst (query_ondisk w path tr)
             = fold (\<lambda>l. AList.update (last_token l) (has_ondisk_marker l)) lines []"
    using assms by (simp add: query_ondisk_def dmls_cmd_def ondisk_of_dmls_text)
  have "map_of (fst (query_ondisk w path tr)) (last_token l)
          = Some (sublist ''(REG)'' l \<or> sublist ''(DUL)'' l)"
    if "lines = before @ l # after \<and> last_token l \<notin> last_token ` set after"
    for before l after
    using that fold_update_lookup [of last_token l after has_ondisk_marker before "[]"]
    by (simp add: q has_ondisk_marker_def)
  moreover have "fst ` set (fst (query_ondisk w path tr)) = last_token ` set lines"
    by (simp add: q fold_update_keys)
  moreover have "last_token (pre @ CHR '' '' # tok) = tok" if "CHR '' '' \<notin> set tok" for pre tok
    using that by (rule last_token_after_space)
  moreover have "lines = [] \<longrightarrow> fst (query_ondisk w path tr) = []"
    by (simp add: q)
  moreover have "snd (query_ondisk w path tr) = tr @ [Popen (''dmls -l '' @ py_str path)]"
    by (simp add: query_ondisk_def dmls_cmd_def Let_def)
  ultimately show ?thesis by blast
qed

theorem query_ondisk_classifies_lines_witness:
  "popen_output dmls_world [] (''dmls -l '' @ py_str (Str ''/b/*.nc''))
     = dmls_text [''-rw-r--r-- 1 u g 10 (REG) /b/x.nc'', ''-rw-r--r-- 1 u g 10 (OFL) /b/y.nc'']
       @ []
   \<and> list_all (\<lambda>l. CHR 0x0A \<notin> set l)
        [''-rw-r--r-- 1 u g 10 (REG) /b/x.nc'', ''-rw-r--r-- 1 u g 10 (OFL) /b/y.nc'']
   \<and> map_of (fst (query_ondisk dmls_world (Str ''/b/*.nc'') [])) ''/b/x.nc'' = Some True
   \<and> map_of (fst (query_ondisk dmls_world (Str ''/b/*.nc'') [])) ''/b/y.nc'' = Some False
   \<and> fst ` set (fst (query_ondisk dmls_world (Str ''/b/*.nc'') []))
       = {''/b/x.nc'', ''/b/y.nc''}"
proof -
  let ?x = "''-rw-r--r-- 1 u g 10 (REG) /b/x.nc''"
  let ?y = "''-rw-r--r-- 1 u g 10 (OFL) /b/y.nc''"
  have out: "popen_output dmls_world [] (''dmls -l '' @ py_str (Str ''/b/*.nc''))
               = dmls_text [?x, ?y] @ []"
    by (simp add: dmls_world_def silent_world_def)
  have nl: "list_all (\<lambda>l. CHR 0x0A \<notin> set l) [?x, ?y]"
    by simp
  have no_rest: "CHR 0x0A \<notin> set ''''"
    by simp
  have tx: "last_token ?x = ''/b/x.nc''" and ty: "last_token ?y = ''/b/y.nc''"
    by (simp_all add: last_token_def)
  have mx: "sublist ''(REG)'' ?x"
    by (simp add: sublist_Cons_right)
  have my: "\<not> (sublist ''(REG)'' ?y \<or> sublist ''(DUL)'' ?y)"
    by (simp add: sublist_Cons_right)
  note inst = query_ondisk_classifies_lines [OF out nl no_rest]
  from inst have
    lines: "\<forall>before l after.
              [?x, ?y] = before @ l # after \<and> last_token l \<notin> last_token ` set after
              \<longrightarrow> map_of (fst (query_ondisk dmls_world (Str ''/b/*.nc'') [])) (last_token l)
                    = Some (sublist ''(REG)'' l \<or> sublist ''(DUL)'' l)"
    and keys: "fst ` set (fst (query_ondisk dmls_world (Str ''/b/*.nc'') []))
                 = last_token ` set [?x, ?y]"
    by blast+
  from lines [rule_format, of "[]" ?x "[?y]"] mx
  have "map_of (fst (query_ondisk dmls_world (Str ''/b/*.nc'') [])) ''/b/x.nc'' = Some True"
    by (simp add: tx ty)
  moreover from lines [rule_format, of "[?x]" ?y "[]"] my
  have "map_of (fst (query_ondisk dmls_world (Str ''/b/*.nc'') [])) ''/b/y.nc'' = Some False"
    by (simp add: tx ty)
  moreover from keys
  have "fst ` set (fst (query_ondisk dmls_world (Str ''/b/*.nc'') []))
          = {''/b/x.nc'', ''/b/y.nc''}"
    by (simp add: tx ty)
  ultimately show ?thesis using out nl by blast
qed

text \<open>
  Claim C7 as stated fails in three ways. A line that ends in a space has the empty
  key, so its last whitespace-delimited token, the path, is not in the map at all
  although the line holds a marker. Of two lines with the same path the later decides,
  so the path of a line without a marker can be marked resident. And a last line that no
  newline ends is not classified.
\<close>

theorem query_ondisk_not_last_whitespace_token:
  "last_whitespace_token ''-rw-r--r-- 1 u g 10 (REG) /c/x.nc '' = ''/c/x.nc''
   \<and> sublist ''(REG)'' ''-rw-r--r-- 1 u g 10 (REG) /c/x.nc ''
   \<and> fst (query_ondisk (listing_world (dmls_text [''-rw-r--r-- 1 u g 10 (REG) /c/x.nc '']))
            (Str ''/c/x.nc'') [])
       = [('''', True)]
   \<and> last_whitespace_token ''-rw-r--r-- 1 u g 10 (OFL) /c/y.nc'' = ''/c/y.nc''
   \<and> \<not> (sublist ''(REG)'' ''-rw-r--r-- 1 u g 10 (OFL) /c/y.nc''
         \<or> sublist ''(DUL)'' ''-rw-r--r-- 1 u g 10 (OFL) /c/y.nc'')
   \<and> fst (query_ondisk (listing_world (dmls_text [''-rw-r--r-- 1 u g 10 (OFL) /c/y.nc'',
                                                    ''-rw-r--r-- 1 u g 10 (REG) /c/y.nc'']))
            (Str ''/c/y.nc'') [])
       = [(''/c/y.nc'', True)]
   \<and> fst (query_ondisk (listing_world ''-rw-r--r-- 1 u g 10 (REG) /c/z.nc'')
            (Str ''/c/z.nc'') [])
       = []"
  by (simp add: query_ondisk_def listing_world_def silent_world_def dmls_text_def
      ondisk_of_output_def last_token_def has_ondisk_marker_def sublist_Cons_right
      last_whitespace_token_def is_whitespace_def)

section \<open>Residency of all groups\<close>

lemma query_ondisk_trace:
  "snd (query_ondisk w path tr) = tr @ [Popen (''dmls -l '' @ py_str path)]"
  by (simp add: query_ondisk_def dmls_cmd_def Let_def)

lemma ondisk_flags_trace:
  "snd (ondisk_flags w paths tr) = tr @ map (\<lambda>p. Popen (''dmls -l '' @ py_str p)) paths"
proof (induction paths arbitrary: tr)
  case Nil
  show ?case by simp
next
  case (Cons p ps)
  show ?case
    using Cons [of "tr @ [Popen (''dmls -l '' @ py_str p)]"] query_ondisk_trace [of w p tr]
    by (simp add: case_prod_beta)
qed

lemma ondisk_flags_all:
  "list_all (\<lambda>b. b) (fst (ondisk_flags w paths tr)) \<longleftrightarrow>
     (\<forall>i < length paths.
        list_all (\<lambda>b. b)
          (map snd (fst (query_ondisk w (paths ! i)
                           (tr @ map (\<lambda>p. Popen (''dmls -l '' @ py_str p)) (take i paths))))))"
proof (induction paths arbitrary: tr)
  case Nil
  show ?case by simp
next
  case (Cons p ps)
  show ?case
    using Cons [of "tr @ [Popen (''dmls -l '' @ py_str p)]"] query_ondisk_trace [of w p tr]
    by (simp add: case_prod_beta All_less_Suc2)
qed

lemma query_ondisk_dmls_world_b:
  "fst (query_ondisk dmls_world (Str ''/b/*.nc'') tr)
     = [(''/b/x.nc'', True), (''/b/y.nc'', False)]"
  by (simp add: query_ondisk_def dmls_cmd_def dmls_world_def silent_world_def dmls_text_def
      ondisk_of_output_def last_token_def has_ondisk_marker_def sublist_Cons_right)

lemma query_ondisk_dmls_world_a:
  "fst (query_ondisk dmls_world (Str ''/a/*.nc'') tr)
     = [(''/a/x.nc'', True), (''/a/y.nc'', True)]"
  by (simp add: query_ondisk_def dmls_cmd_def dmls_world_def silent_world_def dmls_text_def
      ondisk_of_output_def last_token_def has_ondisk_marker_def sublist_Cons_right)

text \<open>
  Claim C6, as amended. \<open>query_all_ondisk\<close> queries every group once, in order, each at
  the moment its turn comes (the trace then holds the queries of the groups before it),
  and returns true exactly when every entry of every one of these freshly computed
  residency maps is marked resident; one entry marked non-resident in any group's map
  makes it false. The entries of a map are the paths that the listing command printed
  for the group, which need not be the paths supplied.
\<close>

theorem query_all_ondisk_iff_every_entry_resident:
  "(fst (query_all_ondisk w paths tr) \<longleftrightarrow>
      (\<forall>i < length paths.
         \<forall>entry \<in> set (fst (query_ondisk w (paths ! i)
                               (tr @ map (\<lambda>p. Popen (''dmls -l '' @ py_str p))
                                      (take i paths)))).
           snd entry))
   \<and> snd (query_all_ondisk w paths tr)
       = tr @ map (\<lambda>p. Popen (''dmls -l '' @ py_str p)) paths"
  using ondisk_flags_all [of w paths tr] ondisk_flags_trace [of w paths tr]
  by (simp add: query_all_ondisk_def case_prod_beta list_all_iff)

theorem query_all_ondisk_iff_every_entry_resident_witness:
  "fst (query_all_ondisk dmls_world [Str ''/a/*.nc'', Str ''/b/*.nc''] []) = False
   \<and> (''/b/y.nc'', False)
       \<in> set (fst (query_ondisk dmls_world (Str ''/b/*.nc'') [Popen ''dmls -l /a/*.nc'']))
   \<and> fst (query_all_ondisk dmls_world [Str ''/a/*.nc''] []) = True
   \<and> snd (query_all_ondisk dmls_world [Str ''/a/*.nc'', Str ''/b/*.nc''] [])
       = [Popen ''dmls -l /a/*.nc'', Popen ''dmls -l /b/*.nc'']"
  using query_all_ondisk_iff_every_entry_resident
      [of dmls_world "[Str ''/a/*.nc'', Str ''/b/*.nc'']" "[]"]
    query_all_ondisk_iff_every_entry_resident [of dmls_world "[Str ''/a/*.nc'']" "[]"]
  by (simp add: All_less_Suc2 query_ondisk_dmls_world_a query_ondisk_dmls_world_b
      numeral_2_eq_2)

text \<open>
  Claim C6 as stated fails. Where the listing of a supplied path prints nothing, the
  residency map is empty, the path is not marked resident in it, and the answer is true
  all the same. The same happens with a group that is a list of paths, as the docstring
  has it: the list is pasted into the command as its \<open>repr\<close>.
\<close>

theorem query_all_ondisk_true_on_empty_listing:
  "fst (query_all_ondisk silent_world [Str ''/arch/x.nc''] []) = True
   \<and> map_of (fst (query_ondisk silent_world (Str ''/arch/x.nc'') [])) ''/arch/x.nc'' = None
   \<and> query_all_ondisk silent_world [StrList [''/arch/x.nc'', ''/arch/y.nc'']] []
       = (True, [Popen ''dmls -l ['/arch/x.nc', '/arch/y.nc']''])"
  by (simp add: query_all_ondisk_def query_ondisk_def dmls_cmd_def silent_world_def
      ondisk_of_output_def py_repr_list_def py_repr_str_def repr_quote_def repr_char_def
      Let_def)

section \<open>Waiting for the migration\<close>

lemma poll_rounds_0: "poll_rounds round 0 = []"
  by (simp add: poll_rounds_def)

lemma poll_rounds_Suc: "poll_rounds round (Suc n) = round @ Sleep 1000 # poll_rounds round n"
  by (simp add: poll_rounds_def)

lemma query_all_ondisk_trace:
  "snd (query_all_ondisk w (map Str paths) tr) = tr @ dmls_round paths"
  using ondisk_flags_trace [of w "map Str paths" tr]
  by (simp add: query_all_ondisk_def case_prod_beta dmls_round_def comp_def)

lemma wait_ondisk_step:
  "wait_ondisk w (map Str paths) tr =
     (if fst (query_all_ondisk w (map Str paths) tr) then Some (tr @ dmls_round paths)
      else wait_ondisk w (map Str paths) (tr @ dmls_round paths @ [Sleep 1000]))"
  using query_all_ondisk_trace [of w paths tr]
  by (subst wait_ondisk.simps) (simp add: case_prod_beta)

lemma wait_ondisk_returns:
  assumes "\<forall>j<n. \<not> fst (query_all_ondisk w (map Str paths)
                          (tr @ poll_rounds (dmls_round paths) j))"
    and "fst (query_all_ondisk w (map Str paths) (tr @ poll_rounds (dmls_round paths) n))"
  shows "wait_ondisk w (map Str paths) tr
           = Some (tr @ poll_rounds (dmls_round paths) n @ dmls_round paths)"
  using assms
proof (induction n arbitrary: tr)
  case 0
  then have "fst (query_all_ondisk w (map Str paths) tr)"
    by (simp add: poll_rounds_0)
  then show ?case
    by (subst wait_ondisk_step) (simp add: poll_rounds_0)
next
  case (Suc n)
  let ?tr' = "tr @ dmls_round paths @ [Sleep 1000]"
  from Suc.prems(1) have "\<not> fst (query_all_ondisk w (map Str paths)
                                  (tr @ poll_rounds (dmls_round paths) 0))"
    by blast
  then have first: "\<not> fst (query_all_ondisk w (map Str paths) tr)"
    by (simp add: poll_rounds_0)
  have "\<not> fst (query_all_ondisk w (map Str paths) (?tr' @ poll_rounds (dmls_round paths) j))"
    if "j < n" for j
  proof -
    from that Suc.prems(1)
    have "\<not> fst (query_all_ondisk w (map Str paths)
                  (tr @ poll_rounds (dmls_round paths) (Suc j)))"
      by simp
    then show ?thesis by (simp add: poll_rounds_Suc)
  qed
  then have "\<forall>j<n. \<not> fst (query_all_ondisk w (map Str paths)
                            (?tr' @ poll_rounds (dmls_round paths) j))"
    by blast
  moreover have "fst (query_all_ondisk w (map Str paths)
                        (?tr' @ poll_rounds (dmls_round paths) n))"
    using Suc.prems(2) by (simp add: poll_rounds_Suc)
  ultimately have "wait_ondisk w (map Str paths) ?tr'
      = Some (?tr' @ poll_rounds (dmls_round paths) n @ dmls_round paths)"
    by (rule Suc.IH)
  with first show ?case
    by (subst wait_ondisk_step) (simp add: poll_rounds_Suc)
qed

lemma wait_ondisk_returned_any:
  assumes ret: "wait_ondisk w gs tr = Some r"
  shows "(\<forall>t. snd (query_all_ondisk w gs t) = t @ polls) \<longrightarrow>
         (\<exists>n. (\<forall>j<n. \<not> fst (query_all_ondisk w gs (tr @ poll_rounds polls j)))
            \<and> fst (query_all_ondisk w gs (tr @ poll_rounds polls n))
            \<and> r = tr @ poll_rounds polls n @ polls)"
proof (rule wait_ondisk.raw_induct
    [where P = "\<lambda>w gs tr r.
        (\<forall>t. snd (query_all_ondisk w gs t) = t @ polls) \<longrightarrow>
        (\<exists>n. (\<forall>j<n. \<not> fst (query_all_ondisk w gs (tr @ poll_rounds polls j)))
           \<and> fst (query_all_ondisk w gs (tr @ poll_rounds polls n))
           \<and> r = tr @ poll_rounds polls n @ polls)", OF _ ret], goal_cases)
  case (1 wait w gs tr r)
  show ?case
  proof
    assume shape: "\<forall>t. snd (query_all_ondisk w gs t) = t @ polls"
    show "\<exists>n. (\<forall>j<n. \<not> fst (query_all_ondisk w gs (tr @ poll_rounds polls j)))
            \<and> fst (query_all_ondisk w gs (tr @ poll_rounds polls n))
            \<and> r = tr @ poll_rounds polls n @ polls"
    proof (cases "fst (query_all_ondisk w gs tr)")
      case True
      with 1(2) shape have "r = tr @ polls"
        by (simp add: case_prod_beta)
      with True have "(\<forall>j<0::nat. \<not> fst (query_all_ondisk w gs (tr @ poll_rounds polls j)))
            \<and> fst (query_all_ondisk w gs (tr @ poll_rounds polls 0))
            \<and> r = tr @ poll_rounds polls 0 @ polls"
        by (simp add: poll_rounds_0)
      then show ?thesis by (rule exI)
    next
      case False
      let ?tr' = "tr @ polls @ [Sleep 1000]"
      from False 1(2) shape have "wait w gs ?tr' = Some r"
        by (simp add: case_prod_beta)
      from 1(1) [OF this] shape obtain n where
        n1: "\<forall>j<n. \<not> fst (query_all_ondisk w gs (?tr' @ poll_rounds polls j))"
        and n2: "fst (query_all_ondisk w gs (?tr' @ poll_rounds polls n))"
        and n3: "r = ?tr' @ poll_rounds polls n @ polls"
        by (elim impE exE conjE) assumption
      have "\<not> fst (query_all_ondisk w gs (tr @ poll_rounds polls j))" if "j < Suc n" for j
      proof (cases j)
        case 0
        with False show ?thesis by (simp add: poll_rounds_0)
      next
        case (Suc i)
        with that n1 have "\<not> fst (query_all_ondisk w gs (?tr' @ poll_rounds polls i))"
          by simp
        with Suc show ?thesis by (simp add: poll_rounds_Suc)
      qed
      then have "\<forall>j<Suc n. \<not> fst (query_all_ondisk w gs (tr @ poll_rounds polls j))"
        by simp
      moreover from n2 have "fst (query_all_ondisk w gs (tr @ poll_rounds polls (Suc n)))"
        by (simp add: poll_rounds_Suc)
      moreover from n3 have "r = tr @ poll_rounds polls (Suc n) @ polls"
        by (simp add: poll_rounds_Suc)
      ultimately have "(\<forall>j<Suc n. \<not> fst (query_all_ondisk w gs (tr @ poll_rounds polls j)))
            \<and> fst (query_all_ondisk w gs (tr @ poll_rounds polls (Suc n)))
            \<and> r = tr @ poll_rounds polls (Suc n) @ polls"
        by simp
      then show ?thesis by (rule exI)
    qed
  qed
qed

lemma wait_ondisk_returned:
  assumes "wait_ondisk w (map Str paths) tr = Some r"
  shows "\<exists>n. (\<forall>j<n. \<not> fst (query_all_ondisk w (map Str paths)
                             (tr @ poll_rounds (dmls_round paths) j)))
            \<and> fst (query_all_ondisk w (map Str paths) (tr @ poll_rounds (dmls_round paths) n))
            \<and> r = tr @ poll_rounds (dmls_round paths) n @ dmls_round paths"
  using wait_ondisk_returned_any [OF assms, of "dmls_round paths"]
  by (simp add: query_all_ondisk_trace)

lemma wait_ondisk_never:
  assumes "\<forall>n. \<not> fst (query_all_ondisk w (map Str paths)
                          (tr @ poll_rounds (dmls_round paths) n))"
  shows "wait_ondisk w (map Str paths) tr = None"
proof (cases "wait_ondisk w (map Str paths) tr")
  case None
  then show ?thesis .
next
  case (Some r)
  from wait_ondisk_returned [OF this] obtain n where
    "fst (query_all_ondisk w (map Str paths) (tr @ poll_rounds (dmls_round paths) n))"
    by (elim exE conjE)
  with assms show ?thesis by simp
qed

lemma open_frompp_dmget:
  assumes "expand_paths w pp ppname out local time add tr = (Inr paths, tr1)"
    and "paths \<noteq> []"
  shows "open_frompp w pp ppname out local time add True False prefix_dir kwargs tr
           = (case wait_ondisk w (map Str paths)
                     (tr1 @ [Print ''Issuing dmget command to migrate data to disk.'' '' '',
                             System (''dmget '' @ py_join '' '' paths @ '' &'')]) of
                None \<Rightarrow> None
              | Some tr4 \<Rightarrow>
                  Some (open_mfdataset w paths kwargs
                          (tr4 @ [Print ''Migration complete.'' [CHR 0x0A]])))"
  using assms
  by (simp add: open_frompp_def issue_dmget_def dmget_cmd_def Let_def)

lemma tape_world_glob: "glob_result (tape_world n) tr pattern = [pattern]"
  by (simp add: tape_world_def silent_world_def)

lemma tape_world_listing:
  "popen_output (tape_world n) tr ''dmls -l /archive/pp/atmos/ts/annual/5yr/atmos.2000.tas.nc''
     = (if n \<le> length (filter (\<lambda>e. e = Sleep 1000) tr)
        then ''-rw-r--r-- 1 u g 10 (REG) /archive/pp/atmos/ts/annual/5yr/atmos.2000.tas.nc\<newline>''
        else ''-rw-r--r-- 1 u g 10 (OFL) /archive/pp/atmos/ts/annual/5yr/atmos.2000.tas.nc\<newline>'')"
  by (simp add: tape_world_def silent_world_def)

lemma ondisk_of_output_reg:
  "ondisk_of_output
     ''-rw-r--r-- 1 u g 10 (REG) /archive/pp/atmos/ts/annual/5yr/atmos.2000.tas.nc\<newline>''
     = [(''/archive/pp/atmos/ts/annual/5yr/atmos.2000.tas.nc'', True)]"
  by (simp add: ondisk_of_output_def last_token_def has_ondisk_marker_def sublist_Cons_right)

lemma ondisk_of_output_ofl:
  "ondisk_of_output
     ''-rw-r--r-- 1 u g 10 (OFL) /archive/pp/atmos/ts/annual/5yr/atmos.2000.tas.nc\<newline>''
     = [(''/archive/pp/atmos/ts/annual/5yr/atmos.2000.tas.nc'', False)]"
  by (simp add: ondisk_of_output_def last_token_def has_ondisk_marker_def sublist_Cons_right)

lemma tape_world_query_ondisk:
  "query_ondisk (tape_world n) (Str ''/archive/pp/atmos/ts/annual/5yr/atmos.2000.tas.nc'') tr
     = ([(''/archive/pp/atmos/ts/annual/5yr/atmos.2000.tas.nc'',
          n \<le> length (filter (\<lambda>e. e = Sleep 1000) tr))],
        tr @ [Popen ''dmls -l /archive/pp/atmos/ts/annual/5yr/atmos.2000.tas.nc''])"
  by (simp add: query_ondisk_def dmls_cmd_def tape_world_listing ondisk_of_output_reg
      ondisk_of_output_ofl)

lemma tape_world_query:
  "fst (query_all_ondisk (tape_world n)
          [Str ''/archive/pp/atmos/ts/annual/5yr/atmos.2000.tas.nc''] tr)
     \<longleftrightarrow> n \<le> length (filter (\<lambda>e. e = Sleep 1000) tr)"
  by (simp add: query_all_ondisk_def tape_world_query_ondisk)

lemma sleeps_poll_rounds:
  "\<forall>e\<in>set polls. e \<noteq> Sleep 1000 \<Longrightarrow>
     length (filter (\<lambda>e. e = Sleep 1000) (poll_rounds polls n)) = n"
  by (induction n) (simp_all add: poll_rounds_0 poll_rounds_Suc)

lemma get_pathspp_example:
  "get_pathspp ''/archive/pp'' ''atmos'' ''ts'' ''annual/5yr'' ''2000'' ''tas''
     = ''/archive/pp/atmos/ts/annual/5yr/atmos.2000.tas.nc''"
  by (simp add: get_pathspp_def)

lemma tape_world_returns:
  "open_frompp (tape_world n) ''/archive/pp'' ''atmos'' ''ts'' ''annual/5yr'' ''2000''
       (PathStr ''tas'') True False ''/vftmp/u'' [] []
     = Some (Inr [''/archive/pp/atmos/ts/annual/5yr/atmos.2000.tas.nc''],
             [Glob ''/archive/pp/atmos/ts/annual/5yr/atmos.2000.tas.nc'',
              Print ''Issuing dmget command to migrate data to disk.'' '' '',
              System ''dmget /archive/pp/atmos/ts/annual/5yr/atmos.2000.tas.nc &'']
             @ poll_rounds [Popen ''dmls -l /archive/pp/atmos/ts/annual/5yr/atmos.2000.tas.nc''] n
             @ [Popen ''dmls -l /archive/pp/atmos/ts/annual/5yr/atmos.2000.tas.nc'',
                Print ''Migration complete.'' [CHR 0x0A],
                OpenMfdataset [''/archive/pp/atmos/ts/annual/5yr/atmos.2000.tas.nc''] []])"
proof -
  let ?p = "''/archive/pp/atmos/ts/annual/5yr/atmos.2000.tas.nc''"
  let ?start = "[Glob ?p, Print ''Issuing dmget command to migrate data to disk.'' '' '',
                 System ''dmget /archive/pp/atmos/ts/annual/5yr/atmos.2000.tas.nc &'']
                :: unit event list"
  let ?polls = "[Popen ''dmls -l /archive/pp/atmos/ts/annual/5yr/atmos.2000.tas.nc'']
                :: unit event list"
  have ex: "expand_paths (tape_world n) ''/archive/pp'' ''atmos'' ''ts'' ''annual/5yr'' ''2000''
              (PathStr ''tas'') [] = (Inr [?p], [Glob ?p])"
    by (simp add: expand_paths_def get_pathspp_example tape_world_glob Let_def)
  have polls: "dmls_round [?p] = ?polls"
    by (simp add: dmls_round_def)
  have count: "length (filter (\<lambda>e. e = Sleep 1000) (?start @ poll_rounds ?polls j)) = j" for j
    by (simp add: sleeps_poll_rounds)
  have "wait_ondisk (tape_world n) (map Str [?p]) ?start
          = Some (?start @ poll_rounds (dmls_round [?p]) n @ dmls_round [?p])"
  proof (rule wait_ondisk_returns)
    show "\<forall>j<n. \<not> fst (query_all_ondisk (tape_world n) (map Str [?p])
                          (?start @ poll_rounds (dmls_round [?p]) j))"
      unfolding polls list.map tape_world_query count by simp
    show "fst (query_all_ondisk (tape_world n) (map Str [?p])
                (?start @ poll_rounds (dmls_round [?p]) n))"
      unfolding polls list.map tape_world_query count by simp
  qed
  then have w: "wait_ondisk (tape_world n) [Str ?p] ?start
                  = Some (?start @ poll_rounds ?polls n @ ?polls)"
    unfolding polls by simp
  have opener: "open_mfdataset (tape_world n) [?p] [] tr = (Inr [?p], tr @ [OpenMfdataset [?p] []])"
    for tr
    by (simp add: open_mfdataset_def tape_world_def silent_world_def)
  have ne: "[?p] \<noteq> []"
    by simp
  show ?thesis
    using open_frompp_dmget [OF ex ne, of "''/vftmp/u''" "[]"]
    by (simp add: w opener)
qed

lemma open_frompp_dmget_shape:
  assumes "expand_paths w pp ppname out local time add tr = (Inr paths, tr1)"
    and "paths \<noteq> []"
    and "open_frompp w pp ppname out local time add True False prefix_dir kwargs tr
           = Some (res, final)"
  shows "\<exists>n. (\<forall>j<n. \<not> fst (query_all_ondisk w (map Str paths)
              ((tr1 @ [Print ''Issuing dmget command to migrate data to disk.'' '' '',
                       System (''dmget '' @ py_join '' '' paths @ '' &'')])
               @ poll_rounds (dmls_round paths) j)))
           \<and> fst (query_all_ondisk w (map Str paths)
              ((tr1 @ [Print ''Issuing dmget command to migrate data to disk.'' '' '',
                       System (''dmget '' @ py_join '' '' paths @ '' &'')])
               @ poll_rounds (dmls_round paths) n))
           \<and> final = (tr1 @ [Print ''Issuing dmget command to migrate data to disk.'' '' '',
                              System (''dmget '' @ py_join '' '' paths @ '' &'')])
                      @ poll_rounds (dmls_round paths) n @ dmls_round paths
                      @ [Print ''Migration complete.'' [CHR 0x0A]]
                      @ (if ''use_cftime'' \<in> set (map fst kwargs) then []
                         else [OpenMfdataset paths kwargs])"
proof -
  let ?start = "tr1 @ [Print ''Issuing dmget command to migrate data to disk.'' '' '',
                       System (''dmget '' @ py_join '' '' paths @ '' &'')]"
  note unfolded = open_frompp_dmget [OF assms(1,2), of prefix_dir kwargs]
  show ?thesis
  proof (cases "wait_ondisk w (map Str paths) ?start")
    case None
    with assms(3) show ?thesis
      unfolding unfolded by simp
  next
    case (Some tr4)
    from assms(3) have final: "final = snd (open_mfdataset w paths kwargs
                                         (tr4 @ [Print ''Migration complete.'' [CHR 0x0A]]))"
      unfolding unfolded Some by simp
    from wait_ondisk_returned [OF Some] obtain n where
      n1: "\<forall>j<n. \<not> fst (query_all_ondisk w (map Str paths)
                            (?start @ poll_rounds (dmls_round paths) j))"
      and n2: "fst (query_all_ondisk w (map Str paths)
                     (?start @ poll_rounds (dmls_round paths) n))"
      and n3: "tr4 = ?start @ poll_rounds (dmls_round paths) n @ dmls_round paths"
      by (elim exE conjE)
    have "final = ?start @ poll_rounds (dmls_round paths) n @ dmls_round paths
                        @ [Print ''Migration complete.'' [CHR 0x0A]]
                        @ (if ''use_cftime'' \<in> set (map fst kwargs) then []
                           else [OpenMfdataset paths kwargs])"
      unfolding final n3 by (simp add: open_mfdataset_def)
    with n1 n2 show ?thesis
      by (intro exI [of _ n] conjI)
  qed
qed

lemma open_frompp_dmget_returns:
  assumes "expand_paths w pp ppname out local time add tr = (Inr paths, tr1)"
    and "paths \<noteq> []"
    and "fst (query_all_ondisk w (map Str paths)
              ((tr1 @ [Print ''Issuing dmget command to migrate data to disk.'' '' '',
                       System (''dmget '' @ py_join '' '' paths @ '' &'')])
               @ poll_rounds (dmls_round paths) m))"
  shows "\<exists>r. open_frompp w pp ppname out local time add True False prefix_dir kwargs tr
               = Some r"
proof -
  let ?start = "tr1 @ [Print ''Issuing dmget command to migrate data to disk.'' '' '',
                       System (''dmget '' @ py_join '' '' paths @ '' &'')]"
  let ?ready = "\<lambda>n. fst (query_all_ondisk w (map Str paths)
                          (?start @ poll_rounds (dmls_round paths) n))"
  define n where "n = (LEAST n. ?ready n)"
  from assms(3) have n: "?ready n"
    unfolding n_def by (rule LeastI)
  have least: "\<forall>j<n. \<not> ?ready j"
  proof (intro allI impI)
    fix j
    assume "j < n"
    then show "\<not> ?ready j"
      unfolding n_def by (rule not_less_Least)
  qed
  from wait_ondisk_returns [OF least n]
  show ?thesis
    unfolding open_frompp_dmget [OF assms(1,2), of prefix_dir kwargs] by simp
qed

lemma open_frompp_dmget_never:
  assumes "expand_paths w pp ppname out local time add tr = (Inr paths, tr1)"
    and "paths \<noteq> []"
    and "\<forall>n. \<not> fst (query_all_ondisk w (map Str paths)
              ((tr1 @ [Print ''Issuing dmget command to migrate data to disk.'' '' '',
                       System (''dmget '' @ py_join '' '' paths @ '' &'')])
               @ poll_rounds (dmls_round paths) n))"
  shows "open_frompp w pp ppname out local time add True False prefix_dir kwargs tr = None"
proof -
  from assms(3)
  have "wait_ondisk w (map Str paths)
          (tr1 @ [Print ''Issuing dmget command to migrate data to disk.'' '' '',
                  System (''dmget '' @ py_join '' '' paths @ '' &'')]) = None"
    by (rule wait_ondisk_never)
  then show ?thesis
    unfolding open_frompp_dmget [OF assms(1,2), of prefix_dir kwargs] by simp
qed

lemma tape_world_unbounded:
  "\<exists>res final.
     open_frompp (tape_world n) ''/archive/pp'' ''atmos'' ''ts'' ''annual/5yr'' ''2000''
         (PathStr ''tas'') True False ''/vftmp/u'' [] []
       = Some (res, final)
     \<and> length (filter (\<lambda>e. e = Sleep 1000) final) = n"
proof (intro exI conjI)
  show "open_frompp (tape_world n) ''/archive/pp'' ''atmos'' ''ts'' ''annual/5yr'' ''2000''
         (PathStr ''tas'') True False ''/vftmp/u'' [] []
       = Some (Inr [''/archive/pp/atmos/ts/annual/5yr/atmos.2000.tas.nc''],
             [Glob ''/archive/pp/atmos/ts/annual/5yr/atmos.2000.tas.nc'',
              Print ''Issuing dmget command to migrate data to disk.'' '' '',
              System ''dmget /archive/pp/atmos/ts/annual/5yr/atmos.2000.tas.nc &'']
             @ poll_rounds [Popen ''dmls -l /archive/pp/atmos/ts/annual/5yr/atmos.2000.tas.nc''] n
             @ [Popen ''dmls -l /archive/pp/atmos/ts/annual/5yr/atmos.2000.tas.nc'',
                Print ''Migration complete.'' [CHR 0x0A],
                OpenMfdataset [''/archive/pp/atmos/ts/annual/5yr/atmos.2000.tas.nc''] []])"
    by (rule tape_world_returns)
  show "length (filter (\<lambda>e. e = Sleep 1000)
          ([Glob ''/archive/pp/atmos/ts/annual/5yr/atmos.2000.tas.nc'',
              Print ''Issuing dmget command to migrate data to disk.'' '' '',
              System ''dmget /archive/pp/atmos/ts/annual/5yr/atmos.2000.tas.nc &'']
             @ poll_rounds [Popen ''dmls -l /archive/pp/atmos/ts/annual/5yr/atmos.2000.tas.nc''] n
             @ [Popen ''dmls -l /archive/pp/atmos/ts/annual/5yr/atmos.2000.tas.nc'',
                Print ''Migration complete.'' [CHR 0x0A],
                OpenMfdataset [''/archive/pp/atmos/ts/annual/5yr/atmos.2000.tas.nc''] []])) = n"
    by (simp add: sleeps_poll_rounds)
qed

lemma glob_each_trace: "snd (glob_each w patterns tr) = tr @ map Glob patterns"
proof (induction patterns arbitrary: tr)
  case Nil
  show ?case by simp
next
  case (Cons p ps)
  from Cons [of "tr @ [Glob p]"] show ?case
    by (simp add: case_prod_beta)
qed

lemma expand_paths_trace:
  assumes "expand_paths w pp ppname out local time add tr = (Inr paths, tr1)"
  shows "\<exists>globs. tr1 = tr @ globs \<and> filter is_system globs = []"
proof (cases add)
  case (PathStr a)
  with assms have "tr1 = tr @ [Glob (get_pathspp pp ppname out local time a)]
      \<and> filter is_system [Glob (get_pathspp pp ppname out local time a) :: 'a event] = []"
    by (simp add: expand_paths_def Let_def)
  then show ?thesis by (rule exI)
next
  case (PathList vs)
  with assms
  have "tr1 = snd (glob_each w (map (\<lambda>v. get_pathspp pp ppname out local time v) vs) tr)"
    by (simp add: expand_paths_def case_prod_beta)
  then have "tr1 = tr @ map Glob (map (\<lambda>v. get_pathspp pp ppname out local time v) vs)
      \<and> filter is_system
            (map Glob (map (\<lambda>v. get_pathspp pp ppname out local time v) vs) :: 'a event list)
          = []"
    by (simp add: glob_each_trace filter_empty_conv)
  then show ?thesis by (rule exI)
next
  case PathOther
  with assms show ?thesis
    by (simp add: expand_paths_def)
qed

lemma poll_rounds_quiet:
  "filter is_system round = [] \<Longrightarrow> filter is_system (poll_rounds round n) = []"
  by (induction n) (simp_all add: poll_rounds_0 poll_rounds_Suc)

lemma dmls_round_quiet: "filter is_system (dmls_round paths) = []"
  by (simp add: dmls_round_def filter_empty_conv)

lemma open_frompp_dmget_one_request:
  assumes "expand_paths w pp ppname out local time add tr = (Inr paths, tr1)"
    and "paths \<noteq> []"
    and "open_frompp w pp ppname out local time add True False prefix_dir kwargs tr
           = Some (res, final)"
  shows "filter is_system (drop (length tr) final)
           = [System (''dmget '' @ py_join '' '' paths @ '' &'')]"
proof -
  from expand_paths_trace [OF assms(1)] obtain globs where
    tr1: "tr1 = tr @ globs" and globs: "filter is_system globs = []"
    by (elim exE conjE)
  from open_frompp_dmget_shape [OF assms] obtain n where
    "final = (tr1 @ [Print ''Issuing dmget command to migrate data to disk.'' '' '',
                     System (''dmget '' @ py_join '' '' paths @ '' &'')])
             @ poll_rounds (dmls_round paths) n @ dmls_round paths
             @ [Print ''Migration complete.'' [CHR 0x0A]]
             @ (if ''use_cftime'' \<in> set (map fst kwargs) then []
                else [OpenMfdataset paths kwargs])"
    by (elim exE conjE)
  then show ?thesis
    unfolding tr1
    by (simp add: globs poll_rounds_quiet dmls_round_quiet)
qed

text \<open>
  Claim C1. Let the expansion of the arguments give the non-empty list \<open>paths\<close>, and
  call \<open>open_frompp\<close> with \<open>dmget=True\<close> (and \<open>mirror=False\<close>). Up to the polling the call
  has printed its message and run one \<open>dmget\<close> command on all the paths: that is
  \<open>start\<close>. This is the only shell command that a returning call runs with
  \<open>os.system\<close>. If the call returns, then for some \<open>n\<close> its trace is \<open>start\<close>, then \<open>n\<close>
  rounds of residency queries each followed by a sleep of one second, then one more
  round, the final message and the opening of the dataset (which Python refuses before
  the opener runs when the keyword arguments hold \<open>use_cftime\<close>); \<open>query_all_ondisk\<close> was
  false in each of the first \<open>n\<close> rounds and true in the last. The call returns if some
  round finds everything on disk and never returns if none does. There is no bound on
  \<open>n\<close>: for every \<open>n\<close> there is a world in which the call returns after exactly \<open>n\<close>
  sleeps.
\<close>

theorem open_frompp_dmget_requests_once_then_polls:
  assumes "expand_paths w pp ppname out local time add tr = (Inr paths, tr1)"
    and "paths \<noteq> []"
    and "start = tr1 @ [Print ''Issuing dmget command to migrate data to disk.'' '' '',
                        System (''dmget '' @ py_join '' '' paths @ '' &'')]"
    and "polls = map (\<lambda>p. Popen (''dmls -l '' @ p)) paths"
  shows "(\<forall>res final.
            open_frompp w pp ppname out local time add True False prefix_dir kwargs tr
              = Some (res, final)
            \<longrightarrow> (\<exists>n. (\<forall>j<n. \<not> fst (query_all_ondisk w (map Str paths)
                                       (start @ poll_rounds polls j)))
                    \<and> fst (query_all_ondisk w (map Str paths) (start @ poll_rounds polls n))
                    \<and> final = start @ poll_rounds polls n @ polls
                               @ [Print ''Migration complete.'' [CHR 0x0A]]
                               @ (if ''use_cftime'' \<in> set (map fst kwargs) then []
                                  else [OpenMfdataset paths kwargs])))
       \<and> (\<forall>res final.
            open_frompp w pp ppname out local time add True False prefix_dir kwargs tr
              = Some (res, final)
            \<longrightarrow> filter is_system (drop (length tr) final)
                  = [System (''dmget '' @ py_join '' '' paths @ '' &'')])
       \<and> ((\<exists>n. fst (query_all_ondisk w (map Str paths) (start @ poll_rounds polls n)))
            \<longrightarrow> (\<exists>r. open_frompp w pp ppname out local time add True False prefix_dir kwargs tr
                        = Some r))
       \<and> ((\<forall>n. \<not> fst (query_all_ondisk w (map Str paths) (start @ poll_rounds polls n)))
            \<longrightarrow> open_frompp w pp ppname out local time add True False prefix_dir kwargs tr = None)
       \<and> (\<forall>n. \<exists>res final.
             open_frompp (tape_world n) ''/archive/pp'' ''atmos'' ''ts'' ''annual/5yr'' ''2000''
                 (PathStr ''tas'') True False ''/vftmp/u'' [] []
               = Some (res, final)
             \<and> length (filter (\<lambda>e. e = Sleep 1000) final) = n)"
proof -
  have polls: "polls = dmls_round paths"
    by (simp add: assms(4) dmls_round_def)
  show ?thesis
    unfolding polls assms(3)
  proof (intro conjI allI impI)
    fix res final
    assume "open_frompp w pp ppname out local time add True False prefix_dir kwargs tr
              = Some (res, final)"
    from open_frompp_dmget_shape [OF assms(1,2) this]
    show "\<exists>n. (\<forall>j<n. \<not> fst (query_all_ondisk w (map Str paths)
              ((tr1 @ [Print ''Issuing dmget command to migrate data to disk.'' '' '',
                       System (''dmget '' @ py_join '' '' paths @ '' &'')])
               @ poll_rounds (dmls_round paths) j)))
           \<and> fst (query_all_ondisk w (map Str paths)
              ((tr1 @ [Print ''Issuing dmget command to migrate data to disk.'' '' '',
                       System (''dmget '' @ py_join '' '' paths @ '' &'')])
               @ poll_rounds (dmls_round paths) n))
           \<and> final = (tr1 @ [Print ''Issuing dmget command to migrate data to disk.'' '' '',
                              System (''dmget '' @ py_join '' '' paths @ '' &'')])
                      @ poll_rounds (dmls_round paths) n @ dmls_round paths
                      @ [Print ''Migration complete.'' [CHR 0x0A]]
                      @ (if ''use_cftime'' \<in> set (map fst kwargs) then []
                         else [OpenMfdataset paths kwargs])" .
  next
    fix res final
    assume "open_frompp w pp ppname out local time add True False prefix_dir kwargs tr
              = Some (res, final)"
    from open_frompp_dmget_one_request [OF assms(1,2) this]
    show "filter is_system (drop (length tr) final)
            = [System (''dmget '' @ py_join '' '' paths @ '' &'')]" .
  next
    assume "\<exists>n. fst (query_all_ondisk w (map Str paths)
              ((tr1 @ [Print ''Issuing dmget command to migrate data to disk.'' '' '',
                       System (''dmget '' @ py_join '' '' paths @ '' &'')])
               @ poll_rounds (dmls_round paths) n))"
    then obtain m where "fst (query_all_ondisk w (map Str paths)
              ((tr1 @ [Print ''Issuing dmget command to migrate data to disk.'' '' '',
                       System (''dmget '' @ py_join '' '' paths @ '' &'')])
               @ poll_rounds (dmls_round paths) m))"
      by (elim exE)
    from open_frompp_dmget_returns [OF assms(1,2) this]
    show "\<exists>r. open_frompp w pp ppname out local time add True False prefix_dir kwargs tr
               = Some r" .
  next
    assume "\<forall>n. \<not> fst (query_all_ondisk w (map Str paths)
              ((tr1 @ [Print ''Issuing dmget command to migrate data to disk.'' '' '',
                       System (''dmget '' @ py_join '' '' paths @ '' &'')])
               @ poll_rounds (dmls_round paths) n))"
    from open_frompp_dmget_never [OF assms(1,2) this]
    show "open_frompp w pp ppname out local time add True False prefix_dir kwargs tr = None" .
  next
    fix n
    show "\<exists>res final.
       open_frompp (tape_world n) ''/archive/pp'' ''atmos'' ''ts'' ''annual/5yr'' ''2000''
           (PathStr ''tas'') True False ''/vftmp/u'' [] []
         = Some (res, final)
       \<and> length (filter (\<lambda>e. e = Sleep 1000) final) = n"
      by (rule tape_world_unbounded)
  qed
qed

theorem open_frompp_dmget_requests_once_then_polls_witness:
  "expand_paths (tape_world 2) ''/archive/pp'' ''atmos'' ''ts'' ''annual/5yr'' ''2000''
       (PathStr ''tas'') []
     = (Inr [''/archive/pp/atmos/ts/annual/5yr/atmos.2000.tas.nc''],
        [Glob ''/archive/pp/atmos/ts/annual/5yr/atmos.2000.tas.nc''])
   \<and> \<not> fst (query_all_ondisk (tape_world 2)
              [Str ''/archive/pp/atmos/ts/annual/5yr/atmos.2000.tas.nc'']
              [Glob ''/archive/pp/atmos/ts/annual/5yr/atmos.2000.tas.nc'',
               Print ''Issuing dmget command to migrate data to disk.'' '' '',
               System ''dmget /archive/pp/atmos/ts/annual/5yr/atmos.2000.tas.nc &''])
   \<and> (\<exists>r. open_frompp (tape_world 2) ''/archive/pp'' ''atmos'' ''ts'' ''annual/5yr'' ''2000''
              (PathStr ''tas'') True False ''/vftmp/u'' [] [] = Some r)
   \<and> open_frompp (tape_world 2) ''/archive/pp'' ''atmos'' ''ts'' ''annual/5yr'' ''2000''
         (PathStr ''tas'') True False ''/vftmp/u'' [] []
       = Some (Inr [''/archive/pp/atmos/ts/annual/5yr/atmos.2000.tas.nc''],
               [Glob ''/archive/pp/atmos/ts/annual/5yr/atmos.2000.tas.nc'',
                Print ''Issuing dmget command to migrate data to disk.'' '' '',
                System ''dmget /archive/pp/atmos/ts/annual/5yr/atmos.2000.tas.nc &'',
                Popen ''dmls -l /archive/pp/atmos/ts/annual/5yr/atmos.2000.tas.nc'',
                Sleep 1000,
                Popen ''dmls -l /archive/pp/atmos/ts/annual/5yr/atmos.2000.tas.nc'',
                Sleep 1000,
                Popen ''dmls -l /archive/pp/atmos/ts/annual/5yr/atmos.2000.tas.nc'',
                Print ''Migration complete.'' [CHR 0x0A],
                OpenMfdataset [''/archive/pp/atmos/ts/annual/5yr/atmos.2000.tas.nc''] []])"
proof -
  let ?p = "''/archive/pp/atmos/ts/annual/5yr/atmos.2000.tas.nc''"
  have ex: "expand_paths (tape_world 2) ''/archive/pp'' ''atmos'' ''ts'' ''annual/5yr'' ''2000''
              (PathStr ''tas'') [] = (Inr [?p], [Glob ?p])"
    by (simp add: expand_paths_def get_pathspp_example tape_world_glob Let_def)
  have ne: "[?p] \<noteq> []" by simp
  note inst = open_frompp_dmget_requests_once_then_polls
    [OF ex ne refl refl, of "''/vftmp/u''" "[]"]
  have "fst (query_all_ondisk (tape_world 2) (map Str [?p])
               (([Glob ?p] @ [Print ''Issuing dmget command to migrate data to disk.'' '' '',
                              System (''dmget '' @ py_join '' '' [?p] @ '' &'')])
                @ poll_rounds (map (\<lambda>p. Popen (''dmls -l '' @ p)) [?p]) 2))"
    by (simp add: tape_world_query poll_rounds_def numeral_2_eq_2)
  then have ready: "\<exists>n. fst (query_all_ondisk (tape_world 2) (map Str [?p])
               (([Glob ?p] @ [Print ''Issuing dmget command to migrate data to disk.'' '' '',
                              System (''dmget '' @ py_join '' '' [?p] @ '' &'')])
                @ poll_rounds (map (\<lambda>p. Popen (''dmls -l '' @ p)) [?p]) n))"
    by (rule exI)
  from inst [THEN conjunct2, THEN conjunct2, THEN conjunct1, THEN mp, OF ready]
  have returns: "\<exists>r. open_frompp (tape_world 2) ''/archive/pp'' ''atmos'' ''ts'' ''annual/5yr''
                    ''2000'' (PathStr ''tas'') True False ''/vftmp/u'' [] [] = Some r" .
  have first: "\<not> fst (query_all_ondisk (tape_world 2) [Str ?p]
                  [Glob ?p, Print ''Issuing dmget command to migrate data to disk.'' '' '',
                   System ''dmget /archive/pp/atmos/ts/annual/5yr/atmos.2000.tas.nc &''])"
    by (simp add: tape_world_query)
  have run: "open_frompp (tape_world 2) ''/archive/pp'' ''atmos'' ''ts'' ''annual/5yr'' ''2000''
         (PathStr ''tas'') True False ''/vftmp/u'' [] []
       = Some (Inr [?p],
               [Glob ?p,
                Print ''Issuing dmget command to migrate data to disk.'' '' '',
                System ''dmget /archive/pp/atmos/ts/annual/5yr/atmos.2000.tas.nc &'',
                Popen ''dmls -l /archive/pp/atmos/ts/annual/5yr/atmos.2000.tas.nc'',
                Sleep 1000,
                Popen ''dmls -l /archive/pp/atmos/ts/annual/5yr/atmos.2000.tas.nc'',
                Sleep 1000,
                Popen ''dmls -l /archive/pp/atmos/ts/annual/5yr/atmos.2000.tas.nc'',
                Print ''Migration complete.'' [CHR 0x0A],
                OpenMfdataset [?p] []])"
    unfolding tape_world_returns by (simp add: poll_rounds_def numeral_2_eq_2)
  from ex first returns run show ?thesis
    by (intro conjI)
qed

section \<open>Mirroring to scratch\<close>

lemma path_to_copy_trace:
  "\<exists>tests. snd (path_to_copy w prefix_dir ps tr) = tr @ tests \<and> filter is_system tests = []"
proof (induction ps arbitrary: tr)
  case Nil
  show ?case by simp
next
  case (Cons p ps)
  let ?tr1 = "tr @ [IsFile (prefix_dir @ p)]"
  let ?tr2 = "?tr1 @ [IsFile (prefix_dir @ p @ ''.gcp'')]"
  from Cons [of ?tr1] obtain t1 where
    t1: "snd (path_to_copy w prefix_dir ps ?tr1) = ?tr1 @ t1" "filter is_system t1 = []"
    by (elim exE conjE)
  from Cons [of ?tr2] obtain t2 where
    t2: "snd (path_to_copy w prefix_dir ps ?tr2) = ?tr2 @ t2" "filter is_system t2 = []"
    by (elim exE conjE)
  show ?case
  proof (cases "isfile_result w tr (prefix_dir @ p)")
    case True
    with t1 have "snd (path_to_copy w prefix_dir (p # ps) tr) = tr @ (IsFile (prefix_dir @ p) # t1)
        \<and> filter is_system (IsFile (prefix_dir @ p) # t1) = []"
      by (simp add: Let_def)
    then show ?thesis by (rule exI)
  next
    case False
    with t2 have "snd (path_to_copy w prefix_dir (p # ps) tr)
          = tr @ (IsFile (prefix_dir @ p) # IsFile (prefix_dir @ p @ ''.gcp'') # t2)
        \<and> filter is_system (IsFile (prefix_dir @ p) # IsFile (prefix_dir @ p @ ''.gcp'') # t2)
            = []"
      by (simp add: Let_def case_prod_beta)
    then show ?thesis by (rule exI)
  qed
qed

lemma path_to_copy_static:
  assumes "\<forall>t q. isfile_result w t q = present q"
  shows "fst (path_to_copy w prefix_dir ps tr)
           = filter (\<lambda>p. \<not> present (prefix_dir @ p) \<and> \<not> present (prefix_dir @ p @ ''.gcp'')) ps"
  using assms
  by (induction ps arbitrary: tr) (simp_all add: Let_def case_prod_beta)

lemma missing_flags_trace: "snd (missing_flags w ps tr) = tr @ map IsFile ps"
proof (induction ps arbitrary: tr)
  case Nil
  show ?case by simp
next
  case (Cons p ps)
  from Cons [of "tr @ [IsFile p]"] show ?case
    by (simp add: case_prod_beta)
qed

lemma wait_mirrored_returned:
  assumes ret: "wait_mirrored w ps tr = Some r"
  shows "\<exists>n. \<not> list_ex (\<lambda>b. b)
                 (fst (missing_flags w ps (tr @ poll_rounds (map IsFile ps) n)))
            \<and> r = tr @ poll_rounds (map IsFile ps) n @ map IsFile ps"
proof (rule wait_mirrored.raw_induct
    [where P = "\<lambda>w ps tr r.
        \<exists>n. \<not> list_ex (\<lambda>b. b)
                 (fst (missing_flags w ps (tr @ poll_rounds (map IsFile ps) n)))
            \<and> r = tr @ poll_rounds (map IsFile ps) n @ map IsFile ps", OF _ ret], goal_cases)
  case (1 wait w ps tr r)
  show ?case
  proof (cases "list_ex (\<lambda>b. b) (fst (missing_flags w ps tr))")
    case False
    with 1(2) have "r = tr @ map IsFile ps"
      using missing_flags_trace [of w ps tr] by (simp add: case_prod_beta)
    with False have "\<not> list_ex (\<lambda>b. b)
                 (fst (missing_flags w ps (tr @ poll_rounds (map IsFile ps) 0)))
            \<and> r = tr @ poll_rounds (map IsFile ps) 0 @ map IsFile ps"
      by (simp add: poll_rounds_0)
    then show ?thesis by (rule exI)
  next
    case True
    let ?tr' = "tr @ map IsFile ps @ [Sleep 1000]"
    from True 1(2) have "wait w ps ?tr' = Some r"
      using missing_flags_trace [of w ps tr] by (simp add: case_prod_beta)
    from 1(1) [OF this] obtain n where
      n1: "\<not> list_ex (\<lambda>b. b) (fst (missing_flags w ps (?tr' @ poll_rounds (map IsFile ps) n)))"
      and n2: "r = ?tr' @ poll_rounds (map IsFile ps) n @ map IsFile ps"
      by (elim exE conjE)
    then have "\<not> list_ex (\<lambda>b. b)
                 (fst (missing_flags w ps (tr @ poll_rounds (map IsFile ps) (Suc n))))
            \<and> r = tr @ poll_rounds (map IsFile ps) (Suc n) @ map IsFile ps"
      by (simp add: poll_rounds_Suc)
    then show ?thesis by (rule exI)
  qed
qed

lemma poll_rounds_no_system:
  "filter is_system (poll_rounds (map IsFile ps) n) = []"
  by (induction n) (simp_all add: poll_rounds_0 poll_rounds_Suc)

lemma mirror_path_list:
  "mirror_path w (PathList (first # rest)) prefix_dir tr =
     (let d = prefix_dir @ mirror_destination first;
          tr2 = tr @ IsDir d # (if isdir_result w tr d then [] else [MakeDirs d]);
          cmd = ''gcp --debug '' @ py_join '' '' (first # rest) @ '' '' @ d @ ''/''
      in if \<not> (isdir_result w tr d \<or> makedirs_ok w (tr @ [IsDir d]) d)
         then Some (Inl OSError, tr2)
         else (case wait_mirrored w (mirrored_paths prefix_dir (first # rest))
                      (snd (path_to_copy w prefix_dir (first # rest) tr2)
                       @ [Sleep 500, Print (''Trying command: '' @ cmd) [CHR 0x0A], System cmd]) of
                 None \<Rightarrow> None
               | Some tr5 \<Rightarrow>
                   Some (Inr (mirrored_paths prefix_dir (first # rest)), tr5 @ [Sleep 500])))"
  by (simp add: mirror_path_def index_first_def Let_def case_prod_beta gcp_cmd_def
      del: path_to_copy.simps)

lemma mirror_path_returned:
  assumes "mirror_path w (PathList (first # rest)) prefix_dir tr = Some (Inr mirrored, final)"
    and "cmd = ''gcp --debug '' @ py_join '' '' (first # rest) @ '' '' @ prefix_dir
               @ mirror_destination first @ ''/''"
  shows "\<exists>checks n.
           final = tr @ checks
                   @ [Sleep 500, Print (''Trying command: '' @ cmd) [CHR 0x0A], System cmd]
                   @ poll_rounds (map IsFile mirrored) n @ map IsFile mirrored @ [Sleep 500]
           \<and> filter is_system checks = []
           \<and> (\<exists>dir. tr @ checks = snd (path_to_copy w prefix_dir (first # rest) (tr @ dir)))
           \<and> mirrored = map (\<lambda>p. py_replace ''//'' ''/'' (prefix_dir @ p)) (first # rest)
           \<and> \<not> list_ex (\<lambda>b. b)
                 (fst (missing_flags w mirrored
                         (tr @ checks
                          @ [Sleep 500, Print (''Trying command: '' @ cmd) [CHR 0x0A], System cmd]
                          @ poll_rounds (map IsFile mirrored) n)))"
proof -
  let ?d = "prefix_dir @ mirror_destination first"
  let ?dir = "IsDir ?d # (if isdir_result w tr ?d then [] else [MakeDirs ?d])"
  let ?copy = "[Sleep 500, Print (''Trying command: '' @ cmd) [CHR 0x0A], System cmd]"
  let ?m = "mirrored_paths prefix_dir (first # rest)"
  from path_to_copy_trace [of w prefix_dir "first # rest" "tr @ ?dir"] obtain tests where
    tests: "snd (path_to_copy w prefix_dir (first # rest) (tr @ ?dir)) = (tr @ ?dir) @ tests"
    and quiet: "filter is_system tests = []"
    by (elim exE conjE)
  have unfolded: "mirror_path w (PathList (first # rest)) prefix_dir tr =
      (if \<not> (isdir_result w tr ?d \<or> makedirs_ok w (tr @ [IsDir ?d]) ?d)
       then Some (Inl OSError, tr @ ?dir)
       else (case wait_mirrored w ?m ((tr @ ?dir) @ tests @ ?copy) of
               None \<Rightarrow> None
             | Some tr5 \<Rightarrow> Some (Inr ?m, tr5 @ [Sleep 500])))"
    unfolding mirror_path_list Let_def tests assms(2) by simp
  have made: "isdir_result w tr ?d \<or> makedirs_ok w (tr @ [IsDir ?d]) ?d"
  proof (rule ccontr)
    assume "\<not> ?thesis"
    with assms(1) show False
      unfolding unfolded by simp
  qed
  have run: "mirror_path w (PathList (first # rest)) prefix_dir tr =
      (case wait_mirrored w ?m ((tr @ ?dir) @ tests @ ?copy) of
         None \<Rightarrow> None
       | Some tr5 \<Rightarrow> Some (Inr ?m, tr5 @ [Sleep 500]))"
    unfolding unfolded by (rule if_not_P) (simp add: made)
  from assms(1) [unfolded run] obtain tr5 where
    waited: "wait_mirrored w ?m ((tr @ ?dir) @ tests @ ?copy) = Some tr5"
    and final: "final = tr5 @ [Sleep 500]"
    and mirrored: "mirrored = ?m"
    by (cases "wait_mirrored w ?m ((tr @ ?dir) @ tests @ ?copy)") simp_all
  from wait_mirrored_returned [OF waited] obtain n where
    found: "\<not> list_ex (\<lambda>b. b)
              (fst (missing_flags w ?m
                      (((tr @ ?dir) @ tests @ ?copy) @ poll_rounds (map IsFile ?m) n)))"
    and tr5: "tr5 = ((tr @ ?dir) @ tests @ ?copy) @ poll_rounds (map IsFile ?m) n @ map IsFile ?m"
    by (elim exE conjE)
  have "final = tr @ (?dir @ tests) @ ?copy
                @ poll_rounds (map IsFile mirrored) n @ map IsFile mirrored @ [Sleep 500]
        \<and> filter is_system (?dir @ tests) = []
        \<and> (\<exists>dir. tr @ (?dir @ tests)
                    = snd (path_to_copy w prefix_dir (first # rest) (tr @ dir)))
        \<and> mirrored = map (\<lambda>p. py_replace ''//'' ''/'' (prefix_dir @ p)) (first # rest)
        \<and> \<not> list_ex (\<lambda>b. b)
              (fst (missing_flags w mirrored
                      (tr @ (?dir @ tests) @ ?copy @ poll_rounds (map IsFile mirrored) n)))"
  proof (intro conjI)
    show "final = tr @ (?dir @ tests) @ ?copy
                @ poll_rounds (map IsFile mirrored) n @ map IsFile mirrored @ [Sleep 500]"
      by (simp add: final tr5 mirrored)
    show "filter is_system (?dir @ tests) = []"
      using quiet by simp
    have "tr @ (?dir @ tests) = snd (path_to_copy w prefix_dir (first # rest) (tr @ ?dir))"
      by (simp only: tests append_assoc)
    then show "\<exists>dir. tr @ (?dir @ tests)
                    = snd (path_to_copy w prefix_dir (first # rest) (tr @ dir))"
      by (rule exI)
    show "mirrored = map (\<lambda>p. py_replace ''//'' ''/'' (prefix_dir @ p)) (first # rest)"
      by (simp add: mirrored mirrored_paths_def)
    show "\<not> list_ex (\<lambda>b. b)
              (fst (missing_flags w mirrored
                      (tr @ (?dir @ tests) @ ?copy @ poll_rounds (map IsFile mirrored) n)))"
      using found by (simp add: mirrored)
  qed
  then show ?thesis
    by (intro exI)
qed

lemma isfile_events_no_system: "filter is_system (map IsFile ps) = []"
  by (induction ps) simp_all

text \<open>
  Claim C2. Whenever \<open>mirror_path\<close> returns for a list of paths, the events it added to
  the trace hold exactly one shell command, the bulk copy of all the paths of the input
  list into the destination directory, in the order given. The tests that build the
  filtered list \<open>path_to_copy\<close> run just before it, and the list they build is not part
  of the command: in a world whose files do not change the list holds the paths with
  neither a file nor a \<open>.gcp\<close> marker at the destination, and the command is the same
  whatever these tests answer.
\<close>

theorem mirror_path_copies_unfiltered_list:
  assumes "mirror_path w (PathList (first # rest)) prefix_dir tr = Some (Inr mirrored, final)"
    and "cmd = ''gcp --debug '' @ py_join '' '' (first # rest) @ '' '' @ prefix_dir
               @ mirror_destination first @ ''/''"
  shows "filter is_system (drop (length tr) final) = [System cmd]
       \<and> (\<exists>dir polls.
             final = snd (path_to_copy w prefix_dir (first # rest) (tr @ dir))
                     @ [Sleep 500, Print (''Trying command: '' @ cmd) [CHR 0x0A], System cmd]
                     @ polls)
       \<and> ((\<forall>t q. isfile_result w t q = present q) \<longrightarrow>
            (\<forall>t. fst (path_to_copy w prefix_dir (first # rest) t)
                   = filter (\<lambda>p. \<not> present (prefix_dir @ p)
                                 \<and> \<not> present (prefix_dir @ p @ ''.gcp''))
                       (first # rest)))"
proof -
  let ?copy = "[Sleep 500, Print (''Trying command: '' @ cmd) [CHR 0x0A], System cmd]"
  from mirror_path_returned [OF assms] obtain checks n dir where
    final: "final = tr @ checks @ ?copy
                    @ poll_rounds (map IsFile mirrored) n @ map IsFile mirrored @ [Sleep 500]"
    and quiet: "filter is_system checks = []"
    and tests: "tr @ checks = snd (path_to_copy w prefix_dir (first # rest) (tr @ dir))"
    by (elim exE conjE)
  have one: "filter is_system (drop (length tr) final) = [System cmd]"
    unfolding final by (simp add: quiet poll_rounds_no_system isfile_events_no_system)
  have "final = (tr @ checks) @ ?copy
                @ (poll_rounds (map IsFile mirrored) n @ map IsFile mirrored @ [Sleep 500])"
    unfolding final by simp
  then have "final = snd (path_to_copy w prefix_dir (first # rest) (tr @ dir)) @ ?copy
                @ (poll_rounds (map IsFile mirrored) n @ map IsFile mirrored @ [Sleep 500])"
    unfolding tests .
  then have before: "\<exists>dir polls.
             final = snd (path_to_copy w prefix_dir (first # rest) (tr @ dir)) @ ?copy @ polls"
    by (intro exI)
  have static: "(\<forall>t q. isfile_result w t q = present q) \<longrightarrow>
            (\<forall>t. fst (path_to_copy w prefix_dir (first # rest) t)
                   = filter (\<lambda>p. \<not> present (prefix_dir @ p)
                                 \<and> \<not> present (prefix_dir @ p @ ''.gcp''))
                       (first # rest))"
  proof (intro impI allI)
    fix t
    assume "\<forall>t q. isfile_result w t q = present q"
    then show "fst (path_to_copy w prefix_dir (first # rest) t)
                 = filter (\<lambda>p. \<not> present (prefix_dir @ p)
                               \<and> \<not> present (prefix_dir @ p @ ''.gcp''))
                     (first # rest)"
      by (rule path_to_copy_static)
  qed
  from one before static show ?thesis
    by (intro conjI)
qed



lemma mirror_world_isfile:
  "isfile_result mirror_world t p
     \<longleftrightarrow> py_replace ''//'' ''/'' p = ''/vftmp/u/archive/a.nc'' \<or> list_ex is_system t"
  by (simp add: mirror_world_def silent_world_def)

lemma mirror_world_dirs:
  "isdir_result mirror_world t p = False" "makedirs_ok mirror_world t p = True"
  by (simp_all add: mirror_world_def silent_world_def)

lemma mirror_world_filter:
  assumes "\<not> list_ex is_system t"
  shows "path_to_copy mirror_world ''/vftmp/u/'' [''/archive/a.nc'', ''/archive/b.nc''] t
           = ([''/archive/b.nc''],
              t @ [IsFile ''/vftmp/u//archive/a.nc'', IsFile ''/vftmp/u//archive/b.nc'',
                   IsFile ''/vftmp/u//archive/b.nc.gcp''])"
  using assms by (simp add: mirror_world_isfile Let_def)

lemma mirror_world_wait:
  assumes "list_ex is_system t"
  shows "wait_mirrored mirror_world [''/vftmp/u/archive/a.nc'', ''/vftmp/u/archive/b.nc''] t
           = Some (t @ [IsFile ''/vftmp/u/archive/a.nc'', IsFile ''/vftmp/u/archive/b.nc''])"
  using assms
  by (subst wait_mirrored.simps) (simp add: mirror_world_isfile)

lemma mirror_world_run:
  assumes "\<not> list_ex is_system t"
  shows "mirror_path mirror_world (PathList [''/archive/a.nc'', ''/archive/b.nc''])
           ''/vftmp/u/'' t
         = Some (Inr [''/vftmp/u/archive/a.nc'', ''/vftmp/u/archive/b.nc''],
             t @ [IsDir ''/vftmp/u//archive'', MakeDirs ''/vftmp/u//archive'',
                  IsFile ''/vftmp/u//archive/a.nc'', IsFile ''/vftmp/u//archive/b.nc'',
                  IsFile ''/vftmp/u//archive/b.nc.gcp'',
                  Sleep 500,
                  Print ''Trying command: gcp --debug /archive/a.nc /archive/b.nc /vftmp/u//archive/''
                    [CHR 0x0A],
                  System ''gcp --debug /archive/a.nc /archive/b.nc /vftmp/u//archive/'',
                  IsFile ''/vftmp/u/archive/a.nc'', IsFile ''/vftmp/u/archive/b.nc'',
                  Sleep 500])"
proof -
  have dest: "mirror_destination ''/archive/a.nc'' = ''/archive''"
    by (simp add: mirror_destination_def)
  have m: "mirrored_paths ''/vftmp/u/'' [''/archive/a.nc'', ''/archive/b.nc'']
             = [''/vftmp/u/archive/a.nc'', ''/vftmp/u/archive/b.nc'']"
    by (simp add: mirrored_paths_def)
  have quiet: "\<not> list_ex is_system (t @ [IsDir ''/vftmp/u//archive'', MakeDirs ''/vftmp/u//archive''])"
    using assms by simp
  have filt: "snd (path_to_copy mirror_world ''/vftmp/u/'' [''/archive/a.nc'', ''/archive/b.nc'']
                     (t @ [IsDir ''/vftmp/u//archive'', MakeDirs ''/vftmp/u//archive'']))
                = t @ [IsDir ''/vftmp/u//archive'', MakeDirs ''/vftmp/u//archive'',
                       IsFile ''/vftmp/u//archive/a.nc'', IsFile ''/vftmp/u//archive/b.nc'',
                       IsFile ''/vftmp/u//archive/b.nc.gcp'']"
    unfolding mirror_world_filter [OF quiet] by simp
  have waited: "wait_mirrored mirror_world [''/vftmp/u/archive/a.nc'', ''/vftmp/u/archive/b.nc'']
       (t @ [IsDir ''/vftmp/u//archive'', MakeDirs ''/vftmp/u//archive'',
             IsFile ''/vftmp/u//archive/a.nc'', IsFile ''/vftmp/u//archive/b.nc'',
             IsFile ''/vftmp/u//archive/b.nc.gcp'',
             Sleep 500,
             Print ''Trying command: gcp --debug /archive/a.nc /archive/b.nc /vftmp/u//archive/''
               [CHR 0x0A],
             System ''gcp --debug /archive/a.nc /archive/b.nc /vftmp/u//archive/''])
       = Some (t @ [IsDir ''/vftmp/u//archive'', MakeDirs ''/vftmp/u//archive'',
             IsFile ''/vftmp/u//archive/a.nc'', IsFile ''/vftmp/u//archive/b.nc'',
             IsFile ''/vftmp/u//archive/b.nc.gcp'',
             Sleep 500,
             Print ''Trying command: gcp --debug /archive/a.nc /archive/b.nc /vftmp/u//archive/''
               [CHR 0x0A],
             System ''gcp --debug /archive/a.nc /archive/b.nc /vftmp/u//archive/'',
             IsFile ''/vftmp/u/archive/a.nc'', IsFile ''/vftmp/u/archive/b.nc''])"
    by (subst mirror_world_wait) simp_all
  show ?thesis
    unfolding mirror_path_list Let_def dest m
    by (simp add: mirror_world_dirs filt waited del: path_to_copy.simps)
qed

theorem mirror_path_copies_unfiltered_list_witness:
  "mirror_path mirror_world (PathList [''/archive/a.nc'', ''/archive/b.nc'']) ''/vftmp/u/'' []
     = Some (Inr [''/vftmp/u/archive/a.nc'', ''/vftmp/u/archive/b.nc''],
             [IsDir ''/vftmp/u//archive'', MakeDirs ''/vftmp/u//archive'',
              IsFile ''/vftmp/u//archive/a.nc'', IsFile ''/vftmp/u//archive/b.nc'',
              IsFile ''/vftmp/u//archive/b.nc.gcp'',
              Sleep 500,
              Print ''Trying command: gcp --debug /archive/a.nc /archive/b.nc /vftmp/u//archive/''
                [CHR 0x0A],
              System ''gcp --debug /archive/a.nc /archive/b.nc /vftmp/u//archive/'',
              IsFile ''/vftmp/u/archive/a.nc'', IsFile ''/vftmp/u/archive/b.nc'',
              Sleep 500])
   \<and> fst (path_to_copy mirror_world ''/vftmp/u/'' [''/archive/a.nc'', ''/archive/b.nc'']
            [IsDir ''/vftmp/u//archive'', MakeDirs ''/vftmp/u//archive''])
       = [''/archive/b.nc'']
   \<and> filter is_system
        [IsDir ''/vftmp/u//archive'', MakeDirs ''/vftmp/u//archive'',
         IsFile ''/vftmp/u//archive/a.nc'', IsFile ''/vftmp/u//archive/b.nc'',
         IsFile ''/vftmp/u//archive/b.nc.gcp'',
         Sleep 500,
         Print ''Trying command: gcp --debug /archive/a.nc /archive/b.nc /vftmp/u//archive/''
           [CHR 0x0A],
         System ''gcp --debug /archive/a.nc /archive/b.nc /vftmp/u//archive/'',
         IsFile ''/vftmp/u/archive/a.nc'', IsFile ''/vftmp/u/archive/b.nc'',
         Sleep 500 :: unit event]
       = [System ''gcp --debug /archive/a.nc /archive/b.nc /vftmp/u//archive/'']"
proof -
  have quiet: "\<not> list_ex is_system ([] :: unit event list)"
    by simp
  have run: "mirror_path mirror_world (PathList (''/archive/a.nc'' # [''/archive/b.nc'']))
               ''/vftmp/u/'' []
     = Some (Inr [''/vftmp/u/archive/a.nc'', ''/vftmp/u/archive/b.nc''],
             [IsDir ''/vftmp/u//archive'', MakeDirs ''/vftmp/u//archive'',
              IsFile ''/vftmp/u//archive/a.nc'', IsFile ''/vftmp/u//archive/b.nc'',
              IsFile ''/vftmp/u//archive/b.nc.gcp'',
              Sleep 500,
              Print ''Trying command: gcp --debug /archive/a.nc /archive/b.nc /vftmp/u//archive/''
                [CHR 0x0A],
              System ''gcp --debug /archive/a.nc /archive/b.nc /vftmp/u//archive/'',
              IsFile ''/vftmp/u/archive/a.nc'', IsFile ''/vftmp/u/archive/b.nc'',
              Sleep 500])"
    using mirror_world_run [OF quiet] by simp
  have cmd: "''gcp --debug '' @ py_join '' '' (''/archive/a.nc'' # [''/archive/b.nc'']) @ '' ''
               @ ''/vftmp/u/'' @ mirror_destination ''/archive/a.nc'' @ ''/''
             = ''gcp --debug /archive/a.nc /archive/b.nc /vftmp/u//archive/''"
    by (simp add: mirror_destination_def)
  note inst = mirror_path_copies_unfiltered_list [OF run refl]
  from inst [THEN conjunct1]
  have one: "filter is_system
        [IsDir ''/vftmp/u//archive'', MakeDirs ''/vftmp/u//archive'',
         IsFile ''/vftmp/u//archive/a.nc'', IsFile ''/vftmp/u//archive/b.nc'',
         IsFile ''/vftmp/u//archive/b.nc.gcp'',
         Sleep 500,
         Print ''Trying command: gcp --debug /archive/a.nc /archive/b.nc /vftmp/u//archive/''
           [CHR 0x0A],
         System ''gcp --debug /archive/a.nc /archive/b.nc /vftmp/u//archive/'',
         IsFile ''/vftmp/u/archive/a.nc'', IsFile ''/vftmp/u/archive/b.nc'',
         Sleep 500 :: unit event]
       = [System ''gcp --debug /archive/a.nc /archive/b.nc /vftmp/u//archive/'']"
    unfolding cmd by simp
  have quiet2: "\<not> list_ex is_system
                  [IsDir ''/vftmp/u//archive'', MakeDirs ''/vftmp/u//archive'' :: unit event]"
    by simp
  have filtered: "fst (path_to_copy mirror_world ''/vftmp/u/''
                        [''/archive/a.nc'', ''/archive/b.nc'']
                        [IsDir ''/vftmp/u//archive'', MakeDirs ''/vftmp/u//archive''])
                    = [''/archive/b.nc'']"
    unfolding mirror_world_filter [OF quiet2] by simp
  from run filtered one show ?thesis
    by simp
qed


section \<open>Opening with both modes requested\<close>

text \<open>
  Claim C8. Whatever the other arguments and whatever the outside world, calling
  \<open>open_frompp\<close> with both \<open>dmget=True\<close> and \<open>mirror=True\<close> raises the configuration
  error, and the trace of effects is the one the call started with: no glob, no command,
  no print, no file test has happened.
\<close>

theorem open_frompp_both_modes_raises_before_io:
  "open_frompp w pp ppname out local time add True True prefix_dir kwargs tr
     = Some (Inl ValueError_both_modes, tr)"
  by (simp add: open_frompp_def)

end
